theory Spec2Isabelle
  imports Main "HOL-Library.Finite_Map"
begin

section \<open>Python values and result dictionaries\<close>

text \<open>
  The library under verification is \<^verbatim>\<open>src/src/excel_mcp_server/excel_library.py\<close>
  (class \<^verbatim>\<open>ExcelLibrary\<close>). Every operation returns a Python dictionary; cell
  values and arguments are JSON-like Python values. Floating point numbers are left out
  of the value type.
\<close>

datatype pyval =
    PNone
  | PBool bool
  | PInt int
  | PStr string
  | PList "pyval list"
  | PDict "(string \<times> pyval) list"

type_synonym pydict = "(string \<times> pyval) list"

text \<open>A raised exception is the left summand, carrying \<^verbatim>\<open>str(e)\<close>.\<close>

type_synonym 'a raises = "string + 'a"

definition bind_raises :: "'a raises \<Rightarrow> ('a \<Rightarrow> 'b raises) \<Rightarrow> 'b raises" where
  "bind_raises m f = (case m of Inl e \<Rightarrow> Inl e | Inr x \<Rightarrow> f x)"

definition quote :: "string \<Rightarrow> string" where
  "quote s = [CHR 0x27] @ s @ [CHR 0x27]"

section \<open>Characters, numbers and column letters\<close>

definition is_alpha :: "char \<Rightarrow> bool" where
  "is_alpha c = (let n = (of_char c :: nat) in (65 \<le> n \<and> n \<le> 90) \<or> (97 \<le> n \<and> n \<le> 122))"

definition is_digit :: "char \<Rightarrow> bool" where
  "is_digit c = (let n = (of_char c :: nat) in 48 \<le> n \<and> n \<le> 57)"

definition lower_char :: "char \<Rightarrow> char" where
  "lower_char c = (let n = (of_char c :: nat) in if 65 \<le> n \<and> n \<le> 90 then char_of (n + 32) else c)"

definition lower :: "string \<Rightarrow> string" where
  "lower s = map lower_char s"

text \<open>\<^verbatim>\<open>int(s)\<close> on a string of decimal digits.\<close>

definition int_of_digits :: "string \<Rightarrow> nat" where
  "int_of_digits s = foldl (\<lambda>acc c. acc * 10 + ((of_char c :: nat) - 48)) 0 s"

text \<open>\<^verbatim>\<open>str(n)\<close> for a non-negative integer.\<close>

function str_of_nat :: "nat \<Rightarrow> string" where
  "str_of_nat n = (if n < 10 then [char_of (n + 48)] else str_of_nat (n div 10) @ [char_of (n mod 10 + 48)])"
  by pat_completeness auto
termination
  by (relation "measure id") auto

text \<open>
  \<^verbatim>\<open>openpyxl.utils.column_index_from_string\<close>: base 26 without a zero digit, on the
  upper-cased letters (A = 1, Z = 26, AA = 27). The caller's pattern admits one to three
  letters.
\<close>

definition letter_value :: "char \<Rightarrow> nat" where
  "letter_value c = (let n = (of_char c :: nat) in if 97 \<le> n then n - 96 else n - 64)"

definition column_index_from_string :: "string \<Rightarrow> nat" where
  "column_index_from_string s = foldl (\<lambda>acc c. acc * 26 + letter_value c) 0 s"

text \<open>
  \<^verbatim>\<open>openpyxl.utils.get_column_letter\<close>: raises outside 1..18278; otherwise divides
  by 26 repeatedly, borrowing on an exact division.
\<close>

function column_letters :: "nat \<Rightarrow> string" where
  "column_letters n =
     (if n = 0 then []
      else let q = n div 26; r = n mod 26 in
        if r = 0 then column_letters (q - 1) @ [CHR ''Z'']
        else column_letters q @ [char_of (r + 64)])"
  by pat_completeness auto
termination
  by (relation "measure id") (auto simp: div_less_dividend intro: le_less_trans [OF diff_le_self])

definition get_column_letter :: "nat \<Rightarrow> string raises" where
  "get_column_letter idx =
     (if 1 \<le> idx \<and> idx \<le> 18278 then Inr (column_letters idx)
      else Inl (''Invalid column index '' @ str_of_nat idx))"

section \<open>Range references\<close>

text \<open>
  \<^verbatim>\<open>openpyxl.utils.cell.ABSOLUTE_RE\<close>, the pattern
  \<^verbatim>\<open>^[$]?([A-Za-z]{1,3})?[$]?(\d+)?(:[$]?([A-Za-z]{1,3})?[$]?(\d+)?)?$\<close>.
  The result holds the groups min_col, min_row, sep (present or not), max_col and
  max_row; \<open>None\<close> is no match. A final newline is accepted by \<^verbatim>\<open>$\<close>.
\<close>

definition drop_dollar :: "string \<Rightarrow> string" where
  "drop_dollar s = (case s of [] \<Rightarrow> [] | c # cs \<Rightarrow> if c = CHR ''$'' then cs else s)"

definition group_opt :: "string \<Rightarrow> string option" where
  "group_opt s = (if s = [] then None else Some s)"

text \<open>One corner: an optional dollar, up to three letters, an optional dollar, digits.\<close>

definition match_corner :: "string \<Rightarrow> (string option \<times> string option \<times> string) option" where
  "match_corner s =
     (let s1 = drop_dollar s;
          col = takeWhile is_alpha s1;
          s2 = drop_dollar (dropWhile is_alpha s1);
          row = takeWhile is_digit s2
      in if length col > 3 then None
         else Some (group_opt col, group_opt row, dropWhile is_digit s2))"

definition match_absolute ::
  "string \<Rightarrow> (string option \<times> string option \<times> bool \<times> string option \<times> string option) option" where
  "match_absolute key =
     (let s = (if key \<noteq> [] \<and> last key = CHR 0x0A then butlast key else key) in
      case match_corner s of
        None \<Rightarrow> None
      | Some (c1, r1, rest) \<Rightarrow>
          (case rest of
             [] \<Rightarrow> Some (c1, r1, False, None, None)
           | x # rest' \<Rightarrow>
               if x = CHR '':'' then
                 (case match_corner rest' of
                    None \<Rightarrow> None
                  | Some (c2, r2, rest2) \<Rightarrow>
                      if rest2 = [] then Some (c1, r1, True, c2, r2) else None)
               else None))"

type_synonym bounds = "nat option \<times> nat option \<times> nat option \<times> nat option"

text \<open>
  \<^verbatim>\<open>openpyxl.utils.cell.range_boundaries\<close>: (min_col, min_row, max_col, max_row).
  With a separator the reference must give both corners in full, or two columns and no
  row, or two rows and no column. A missing end takes the start's value. The corners are
  returned in the order written.
\<close>

definition range_boundaries :: "string \<Rightarrow> bounds raises" where
  "range_boundaries key =
     (case match_absolute key of
        None \<Rightarrow> Inl (key @ '' is not a valid coordinate or range'')
      | Some (c1, r1, sep, c2, r2) \<Rightarrow>
          if sep \<and> \<not> ((c1 \<noteq> None \<and> r1 \<noteq> None \<and> c2 \<noteq> None \<and> r2 \<noteq> None)
                     \<or> ((c1 \<noteq> None \<and> c2 \<noteq> None) \<and> \<not> (r1 \<noteq> None \<or> r2 \<noteq> None))
                     \<or> ((r1 \<noteq> None \<and> r2 \<noteq> None) \<and> \<not> (c1 \<noteq> None \<or> c2 \<noteq> None)))
          then Inl (key @ '' is not a valid coordinate or range'')
          else
            (let min_col = map_option column_index_from_string c1;
                 min_row = map_option int_of_digits r1;
                 max_col = (case c2 of Some c \<Rightarrow> Some (column_index_from_string c) | None \<Rightarrow> min_col);
                 max_row = (case r2 of Some r \<Rightarrow> Some (int_of_digits r) | None \<Rightarrow> min_row)
             in Inr (min_col, min_row, max_col, max_row)))"

section \<open>The workbook as the spreadsheet library holds it\<close>

text \<open>
  The operations work on openpyxl objects. What follows is the part of that library the
  operations use: cells with a value and a style, worksheets as a dictionary from
  (row, column) to cell, workbooks as a list of worksheets with an active index.
  A font is reduced to the four attributes the operations set; a fill to its solid
  colour.
\<close>

record pyfont =
  bold :: "bool option"
  italic :: "bool option"
  sz :: "int option"
  color :: "string option"

datatype content = CEmpty | CBool bool | CNum int | CText string | CFormula string

text \<open>
  \<open>cached\<close> is the computed value a container stores beside a formula (absent when the
  container was last written by this library, which writes formulas without values).
  \<open>font = None\<close> is the workbook's default font, \<open>fill = None\<close> no fill.
\<close>

record cell =
  content :: content
  cached :: "content option"
  font :: "pyfont option"
  fill :: "string option"
  number_format :: string

definition empty_cell :: cell where
  "empty_cell = \<lparr>content = CEmpty, cached = None, font = None, fill = None, number_format = ''General''\<rparr>"

type_synonym coord = "nat \<times> nat"

record chart =
  chart_type :: string
  chart_title :: "string option"
  chart_data :: string
  anchor :: string

record worksheet =
  title :: string
  cells :: "(coord, cell) fmap"
  charts :: "chart list"

record workbook =
  sheets :: "worksheet list"
  active_index :: nat

datatype stored_file = Container workbook | NotAWorkbook

type_synonym filesystem = "string \<Rightarrow> stored_file option"

definition value_of :: "content \<Rightarrow> pyval" where
  "value_of ct = (case ct of CEmpty \<Rightarrow> PNone | CBool b \<Rightarrow> PBool b | CNum n \<Rightarrow> PInt n
                  | CText s \<Rightarrow> PStr s | CFormula f \<Rightarrow> PStr f)"

text \<open>The cell at a coordinate; a coordinate never touched reads as an empty cell.\<close>

definition cell_at :: "worksheet \<Rightarrow> coord \<Rightarrow> cell" where
  "cell_at ws k = (case fmlookup (cells ws) k of None \<Rightarrow> empty_cell | Some c \<Rightarrow> c)"

definition cell_value :: "worksheet \<Rightarrow> coord \<Rightarrow> pyval" where
  "cell_value ws k = value_of (content (cell_at ws k))"

text \<open>\<^verbatim>\<open>Worksheet.max_row\<close>, \<^verbatim>\<open>max_column\<close>, \<^verbatim>\<open>min_column\<close>: over the
  cell dictionary's keys, 1 when it is empty.\<close>

definition max_row :: "worksheet \<Rightarrow> nat" where
  "max_row ws = (if fmdom' (cells ws) = {} then 1 else Max (fst ` fmdom' (cells ws)))"

definition max_column :: "worksheet \<Rightarrow> nat" where
  "max_column ws = (if fmdom' (cells ws) = {} then 1 else Max (snd ` fmdom' (cells ws)))"

definition min_column :: "worksheet \<Rightarrow> nat" where
  "min_column ws = (if fmdom' (cells ws) = {} then 1 else Min (snd ` fmdom' (cells ws)))"

subsection \<open>Loading and saving\<close>

text \<open>
  \<^verbatim>\<open>os.path.splitext(path)[-1].lower()\<close> on a POSIX path: the suffix from the last
  dot of the last component, leading dots of the component not counted.
\<close>

definition splitext_ext :: "string \<Rightarrow> string" where
  "splitext_ext p =
     (let base = rev (takeWhile (\<lambda>c. c \<noteq> CHR ''/'') (rev p));
          body = dropWhile (\<lambda>c. c = CHR ''.'') base
      in if CHR ''.'' \<in> set body
         then lower (CHR ''.'' # rev (takeWhile (\<lambda>c. c \<noteq> CHR ''.'') (rev body)))
         else [])"

definition supported_format :: "string \<Rightarrow> bool" where
  "supported_format p = (splitext_ext p \<in> {''.xlsx'', ''.xlsm'', ''.xltx'', ''.xltm''})"

text \<open>
  With \<^verbatim>\<open>data_only=True\<close> the reader gives a formula cell the value stored beside
  the formula, or no value when none is stored, and never the formula text.
\<close>

definition data_only_cell :: "cell \<Rightarrow> cell" where
  "data_only_cell c =
     (case content c of
        CFormula f \<Rightarrow> c\<lparr>content := (case cached c of None \<Rightarrow> CEmpty | Some v \<Rightarrow> v)\<rparr>
      | _ \<Rightarrow> c)"

definition with_cells :: "(cell \<Rightarrow> cell) \<Rightarrow> worksheet \<Rightarrow> worksheet" where
  "with_cells f ws = ws\<lparr>cells := fmmap f (cells ws)\<rparr>"

definition map_cells :: "(cell \<Rightarrow> cell) \<Rightarrow> workbook \<Rightarrow> workbook" where
  "map_cells f wb = wb\<lparr>sheets := map (with_cells f) (sheets wb)\<rparr>"

text \<open>
  \<^verbatim>\<open>openpyxl.load_workbook\<close>: refuses a file name with another extension, then a
  file that is not a container.
\<close>

definition load_workbook :: "filesystem \<Rightarrow> string \<Rightarrow> bool \<Rightarrow> workbook raises" where
  "load_workbook fs path data_only =
     (case fs path of
        None \<Rightarrow> Inl (''[Errno 2] No such file or directory: '' @ quote path)
      | Some f \<Rightarrow>
          if \<not> supported_format path
          then Inl (''openpyxl does not support '' @ splitext_ext path @ '' file format'')
          else (case f of
                  NotAWorkbook \<Rightarrow> Inl ''File is not a zip file''
                | Container wb \<Rightarrow> Inr (if data_only then map_cells data_only_cell wb else wb)))"

definition has_style :: "cell \<Rightarrow> bool" where
  "has_style c = (font c \<noteq> None \<or> fill c \<noteq> None \<or> number_format c \<noteq> ''General'')"

text \<open>
  The writer skips a cell with neither value nor style, and writes a formula without a
  computed value. Saving replaces the container at the path as a whole.
\<close>

definition is_blank :: "cell \<Rightarrow> bool" where
  "is_blank c = (content c = CEmpty \<and> \<not> has_style c)"

definition written_cells :: "(coord, cell) fmap \<Rightarrow> (coord, cell) fmap" where
  "written_cells m =
     fmmap (\<lambda>c. c\<lparr>cached := None\<rparr>)
       (fmfilter (\<lambda>k. case fmlookup m k of None \<Rightarrow> False | Some c \<Rightarrow> \<not> is_blank c) m)"

definition written :: "workbook \<Rightarrow> workbook" where
  "written wb = wb\<lparr>sheets := map (\<lambda>ws. ws\<lparr>cells := written_cells (cells ws)\<rparr>) (sheets wb)\<rparr>"

definition save :: "filesystem \<Rightarrow> string \<Rightarrow> workbook \<Rightarrow> filesystem" where
  "save fs path wb = fs(path := Some (Container (written wb)))"

subsection \<open>Cells of a worksheet\<close>

text \<open>\<^verbatim>\<open>Worksheet._get_cell\<close> creates the cell when the coordinate has none.\<close>

definition touch :: "worksheet \<Rightarrow> coord \<Rightarrow> worksheet" where
  "touch ws k = ws\<lparr>cells := fmupd k (cell_at ws k) (cells ws)\<rparr>"

definition modify :: "worksheet \<Rightarrow> coord \<Rightarrow> (cell \<Rightarrow> cell) \<Rightarrow> worksheet" where
  "modify ws k f = ws\<lparr>cells := fmupd k (f (cell_at ws k)) (cells ws)\<rparr>"

definition illegal_char :: "char \<Rightarrow> bool" where
  "illegal_char c = (let n = (of_char c :: nat) in n \<le> 8 \<or> n = 11 \<or> n = 12 \<or> (14 \<le> n \<and> n \<le> 31))"

text \<open>
  Assigning \<^verbatim>\<open>cell.value\<close>: a string is cut to 32767 characters, refused when it
  holds a control character, and is a formula when it is longer than one character and
  starts with an equals sign. A list or a dictionary is refused (the message names the
  value; its rendering is left out here).
\<close>

definition bind_value :: "pyval \<Rightarrow> content raises" where
  "bind_value v =
     (case v of
        PNone \<Rightarrow> Inr CEmpty
      | PBool b \<Rightarrow> Inr (CBool b)
      | PInt n \<Rightarrow> Inr (CNum n)
      | PStr s \<Rightarrow>
          (let t = take 32767 s in
           if list_ex illegal_char t then Inl (t @ '' cannot be used in worksheets.'')
           else if length t > 1 \<and> hd t = CHR ''='' then Inr (CFormula t)
           else Inr (CText t))
      | PList _ \<Rightarrow> Inl ''Cannot convert value to Excel''
      | PDict _ \<Rightarrow> Inl ''Cannot convert value to Excel'')"

text \<open>\<^verbatim>\<open>Worksheet.cell(row, column, value)\<close>: the value is assigned unless it is
  \<^verbatim>\<open>None\<close>.\<close>

definition ws_cell :: "worksheet \<Rightarrow> nat \<Rightarrow> nat \<Rightarrow> pyval \<Rightarrow> worksheet raises" where
  "ws_cell ws row column v =
     (if row < 1 \<or> column < 1 then Inl ''Row or column values must be at least 1''
      else if \<not> row < 1048577 then Inl ''Row numbers must be between 1 and 1048576''
      else if v = PNone then Inr (touch ws (row, column))
      else bind_raises (bind_value v) (\<lambda>ct. Inr (modify ws (row, column) (\<lambda>c. c\<lparr>content := ct\<rparr>))))"

subsection \<open>Iterating and indexing a worksheet\<close>

text \<open>Python's \<^verbatim>\<open>x or d\<close> and truth value on an optional index.\<close>

definition truthy_index :: "nat option \<Rightarrow> bool" where
  "truthy_index x = (case x of None \<Rightarrow> False | Some n \<Rightarrow> n \<noteq> 0)"

definition index_or :: "nat option \<Rightarrow> nat \<Rightarrow> nat" where
  "index_or x d = (case x of None \<Rightarrow> d | Some n \<Rightarrow> if n = 0 then d else n)"

definition cells_by_row :: "nat \<Rightarrow> nat \<Rightarrow> nat \<Rightarrow> nat \<Rightarrow> coord list list" where
  "cells_by_row min_col min_row max_col max_row' =
     map (\<lambda>r. map (\<lambda>c. (r, c)) [min_col..<Suc max_col]) [min_row..<Suc max_row']"

definition cells_by_col :: "nat \<Rightarrow> nat \<Rightarrow> nat \<Rightarrow> nat \<Rightarrow> coord list list" where
  "cells_by_col min_col min_row max_col max_row' =
     map (\<lambda>c. map (\<lambda>r. (r, c)) [min_row..<Suc max_row']) [min_col..<Suc max_col]"

text \<open>
  \<^verbatim>\<open>Worksheet.iter_rows\<close> and \<^verbatim>\<open>iter_cols\<close>, as lists of coordinates. On a
  worksheet as loaded, \<^verbatim>\<open>_current_row\<close> is 0 exactly when it has no cell.
\<close>

definition iter_rows ::
  "worksheet \<Rightarrow> nat option \<Rightarrow> nat option \<Rightarrow> nat option \<Rightarrow> nat option \<Rightarrow> coord list list" where
  "iter_rows ws min_row max_row' min_col max_col =
     (if fmdom' (cells ws) = {} \<and>
         \<not> (truthy_index min_col \<or> truthy_index min_row \<or> truthy_index max_col \<or> truthy_index max_row')
      then []
      else cells_by_row (index_or min_col 1) (index_or min_row 1)
             (index_or max_col (max_column ws)) (index_or max_row' (max_row ws)))"

definition iter_cols ::
  "worksheet \<Rightarrow> nat option \<Rightarrow> nat option \<Rightarrow> nat option \<Rightarrow> nat option \<Rightarrow> coord list list" where
  "iter_cols ws min_col max_col min_row max_row' =
     (if fmdom' (cells ws) = {} \<and>
         \<not> (truthy_index min_col \<or> truthy_index min_row \<or> truthy_index max_col \<or> truthy_index max_row')
      then []
      else cells_by_col (index_or min_col 1) (index_or min_row 1)
             (index_or max_col (max_column ws)) (index_or max_row' (max_row ws)))"

text \<open>The checks \<^verbatim>\<open>cell\<close> and \<^verbatim>\<open>_get_cell\<close> make on every coordinate they reach.\<close>

definition cell_error :: "coord \<Rightarrow> string option" where
  "cell_error k =
     (if fst k < 1 \<or> snd k < 1 then Some ''Row or column values must be at least 1''
      else if \<not> fst k < 1048577 then Some ''Row numbers must be between 1 and 1048576''
      else None)"

text \<open>Building the tuple of an iterator reaches every coordinate; the first refusal is raised.\<close>

definition force :: "coord list list \<Rightarrow> coord list list raises" where
  "force rows = (case List.map_filter cell_error (concat rows) of [] \<Rightarrow> Inr rows | e # _ \<Rightarrow> Inl e)"

text \<open>
  What \<^verbatim>\<open>worksheet[key]\<close> returns: one cell, a tuple of cells, or a tuple of
  tuples of cells (the cells named by their coordinates).
\<close>

datatype selection = OneCell coord | Flat "coord list" | Grid "coord list list"

text \<open>
  \<^verbatim>\<open>Worksheet.__getitem__\<close>. A reference without row numbers yields columns (a
  single column as a flat tuple); one without column letters yields rows over columns
  1..max_column (a single row as a flat tuple); a reference with both and no colon is
  one cell; any other is the tuple of rows min_row..max_row, each over the columns
  min_col..max_col, as written.
\<close>

definition ws_getitem :: "worksheet \<Rightarrow> string \<Rightarrow> selection raises" where
  "ws_getitem ws key =
     bind_raises (range_boundaries key) (\<lambda>(min_col, min_row, max_col, max_row').
       if \<not> (truthy_index min_col \<or> truthy_index min_row \<or> truthy_index max_col \<or> truthy_index max_row')
       then Inl (key @ '' is not a valid coordinate or range'')
       else
         (case min_row of
            None \<Rightarrow>
              bind_raises (force (iter_cols ws min_col max_col None None)) (\<lambda>cols.
                if min_col = max_col
                then (case cols of [] \<Rightarrow> Inl ''tuple index out of range'' | c # _ \<Rightarrow> Inr (Flat c))
                else Inr (Grid cols))
          | Some r1 \<Rightarrow>
              (case min_col of
                 None \<Rightarrow>
                   bind_raises (force (iter_rows ws min_row max_row' None (Some (max_column ws)))) (\<lambda>rows.
                     if min_row = max_row'
                     then (case rows of [] \<Rightarrow> Inl ''tuple index out of range'' | r # _ \<Rightarrow> Inr (Flat r))
                     else Inr (Grid rows))
               | Some c1 \<Rightarrow>
                   if CHR '':'' \<notin> set key
                   then (if 0 < r1 \<and> r1 < 1048577 then Inr (OneCell (r1, c1))
                         else Inl ''Row numbers must be between 1 and 1048576'')
                   else bind_raises (force (iter_rows ws min_row max_row' min_col max_col))
                          (\<lambda>rows. Inr (Grid rows)))))"

text \<open>The coordinates a selection reaches; \<^verbatim>\<open>__getitem__\<close> has created their cells.\<close>

definition selected :: "selection \<Rightarrow> coord list" where
  "selected sel = (case sel of OneCell k \<Rightarrow> [k] | Flat ks \<Rightarrow> ks | Grid rows \<Rightarrow> concat rows)"

definition touch_all :: "worksheet \<Rightarrow> coord list \<Rightarrow> worksheet" where
  "touch_all ws ks = fold (\<lambda>k w. touch w k) ks ws"

text \<open>\<^verbatim>\<open>worksheet[key] = value\<close>, that is \<^verbatim>\<open>worksheet[key].value = value\<close>.\<close>

definition ws_setitem :: "worksheet \<Rightarrow> string \<Rightarrow> pyval \<Rightarrow> worksheet raises" where
  "ws_setitem ws key v =
     bind_raises (ws_getitem ws key) (\<lambda>sel.
       case sel of
         OneCell k \<Rightarrow> bind_raises (bind_value v) (\<lambda>ct. Inr (modify ws k (\<lambda>c. c\<lparr>content := ct\<rparr>)))
       | Flat _ \<Rightarrow> Inl (quote ''tuple'' @ '' object has no attribute '' @ quote ''value'')
       | Grid _ \<Rightarrow> Inl (quote ''tuple'' @ '' object has no attribute '' @ quote ''value''))"

subsection \<open>Deleting rows\<close>

text \<open>
  \<^verbatim>\<open>Worksheet.delete_rows(idx, amount)\<close>: the rows to clear at the end are fixed
  first from the current \<^verbatim>\<open>max_row\<close>; the rows from \<open>idx + amount\<close> on are made
  contiguous and each of their cells is moved up by \<open>amount\<close>, in row order; then the
  remaining rows are deleted in the columns min_column..max_column.
\<close>

definition move_cell :: "nat \<Rightarrow> coord \<Rightarrow> (coord, cell) fmap \<Rightarrow> (coord, cell) fmap" where
  "move_cell amount k m =
     (case fmlookup m k of
        None \<Rightarrow> m
      | Some c \<Rightarrow> fmdrop k (fmupd (fst k - amount, snd k) c m))"

definition delete_rows :: "worksheet \<Rightarrow> nat \<Rightarrow> nat \<Rightarrow> worksheet" where
  "delete_rows ws idx amount =
     (let remainder = [max (max_row ws + 1 - amount) idx ..< Suc (min (idx + amount) (max_row ws))];
          moving = concat (iter_rows ws (Some (idx + amount)) None None None);
          ws1 = touch_all ws moving;
          ws2 = ws1\<lparr>cells := fold (move_cell amount) moving (cells ws1)\<rparr>;
          min_col = min_column ws2;
          max_col = max_column ws2 + 1
      in ws2\<lparr>cells := fmfilter (\<lambda>k. \<not> (fst k \<in> set remainder \<and> min_col \<le> snd k \<and> snd k < max_col))
                          (cells ws2)\<rparr>)"

subsection \<open>Worksheets of a workbook\<close>

definition sheetnames :: "workbook \<Rightarrow> string list" where
  "sheetnames wb = map title (sheets wb)"

text \<open>The position of the first worksheet with a title, as \<^verbatim>\<open>workbook[name]\<close> finds it.\<close>

fun sheet_index :: "worksheet list \<Rightarrow> string \<Rightarrow> nat option" where
  "sheet_index [] name = None"
| "sheet_index (ws # rest) name =
     (if title ws = name then Some 0 else map_option Suc (sheet_index rest name))"

definition active :: "workbook \<Rightarrow> nat option" where
  "active wb = (if active_index wb < length (sheets wb) then Some (active_index wb) else None)"

definition new_workbook :: workbook where
  "new_workbook = \<lparr>sheets = [\<lparr>title = ''Sheet'', cells = fmempty, charts = []\<rparr>], active_index = 0\<rparr>"

text \<open>\<^verbatim>\<open>Workbook.remove\<close> of the first worksheet with the title.\<close>

definition remove_sheet :: "workbook \<Rightarrow> string \<Rightarrow> workbook" where
  "remove_sheet wb name =
     (case sheet_index (sheets wb) name of
        None \<Rightarrow> wb
      | Some i \<Rightarrow> wb\<lparr>sheets := take i (sheets wb) @ drop (Suc i) (sheets wb)\<rparr>)"

definition invalid_title_char :: "char \<Rightarrow> bool" where
  "invalid_title_char c = (c \<in> set (CHR 0x5C # ''*?:/[]''))"

text \<open>
  \<^verbatim>\<open>Workbook.create_sheet(title)\<close>: an empty title becomes \<^verbatim>\<open>Sheet\<close>; a title
  with one of the characters \<^verbatim>\<open>\ * ? : / [ ]\<close> is refused; a title that equals an
  existing one up to letter case is replaced by the library's
  \<^verbatim>\<open>avoid_duplicate_name\<close>, which appends a number. That numbering is the
  parameter \<open>numbered\<close>. The new worksheet is appended and not made active.
\<close>

definition avoid_duplicate_name ::
  "(string list \<Rightarrow> string \<Rightarrow> string) \<Rightarrow> string list \<Rightarrow> string \<Rightarrow> string" where
  "avoid_duplicate_name numbered names v =
     (if list_ex (\<lambda>n. lower n = lower v) names then numbered names v else v)"

definition create_sheet ::
  "(string list \<Rightarrow> string \<Rightarrow> string) \<Rightarrow> workbook \<Rightarrow> string \<Rightarrow> workbook raises" where
  "create_sheet numbered wb name =
     (let t = (if name = [] then ''Sheet'' else name) in
      case List.find invalid_title_char t of
        Some c \<Rightarrow> Inl (''Invalid character '' @ [c] @ '' found in sheet title'')
      | None \<Rightarrow>
          Inr (wb\<lparr>sheets := sheets wb @
                 [\<lparr>title = avoid_duplicate_name numbered (sheetnames wb) t, cells = fmempty, charts = []\<rparr>]\<rparr>))"

section \<open>The operations of \<^verbatim>\<open>ExcelLibrary\<close>\<close>

text \<open>
  Each operation's body runs inside \<^verbatim>\<open>try\<close>; \<^verbatim>\<open>except Exception as e\<close> returns
  the failure dictionary with \<^verbatim>\<open>str(e)\<close>. A body is modelled as a function into
  \<open>raises\<close>; an operation that writes returns the file system with its dictionary. The
  in-memory workbook of a body that raises is dropped with it, so the file system comes back
  as it was.
\<close>

definition failure :: "string \<Rightarrow> pydict" where
  "failure e = [(''success'', PBool False), (''error'', PStr e)]"

text \<open>Truth value of an optional string argument (\<^verbatim>\<open>None\<close> and the empty string are false).\<close>

definition given :: "string option \<Rightarrow> bool" where
  "given x = (case x of None \<Rightarrow> False | Some t \<Rightarrow> t \<noteq> [])"

definition str_or :: "string option \<Rightarrow> string \<Rightarrow> string" where
  "str_or x d = (case x of None \<Rightarrow> d | Some t \<Rightarrow> if t = [] then d else t)"

definition opt_str :: "string option \<Rightarrow> pyval" where
  "opt_str x = (case x of None \<Rightarrow> PNone | Some t \<Rightarrow> PStr t)"

text \<open>
  \<^verbatim>\<open>if sheet_name not in workbook.sheetnames: raise ValueError(...)\<close> followed by
  \<^verbatim>\<open>workbook[sheet_name]\<close>: the position of the worksheet.
\<close>

definition named_sheet :: "workbook \<Rightarrow> string \<Rightarrow> nat raises" where
  "named_sheet wb name =
     (case sheet_index (sheets wb) name of
        None \<Rightarrow> Inl (''Worksheet '' @ quote name @ '' not found'')
      | Some i \<Rightarrow> Inr i)"

definition put_sheet :: "workbook \<Rightarrow> nat \<Rightarrow> worksheet \<Rightarrow> workbook" where
  "put_sheet wb i ws = wb\<lparr>sheets := (sheets wb)[i := ws]\<rparr>"

definition cell_not_iterable :: string where
  "cell_not_iterable = quote ''Cell'' @ '' object is not iterable''"

subsection \<open>\<^verbatim>\<open>read_excel_file\<close>\<close>

text \<open>The loop over \<^verbatim>\<open>iter_rows(values_only=True)\<close> that keeps the rows with a value.\<close>

fun read_rows :: "worksheet \<Rightarrow> coord list list \<Rightarrow> pyval list list" where
  "read_rows ws [] = []"
| "read_rows ws (r # rs) =
     (let row = map (cell_value ws) r in
      if list_ex (\<lambda>v. v \<noteq> PNone) row then row # read_rows ws rs else read_rows ws rs)"

text \<open>The data of a read with a range: the two comprehensions of the source.\<close>

definition read_range :: "worksheet \<Rightarrow> selection \<Rightarrow> pyval list list raises" where
  "read_range ws sel =
     (case sel of
        Grid rows \<Rightarrow> Inr (map (map (cell_value ws)) rows)
      | Flat ks \<Rightarrow> (if ks = [] then Inr [] else Inl cell_not_iterable)
      | OneCell k \<Rightarrow> Inl cell_not_iterable)"

text \<open>The worksheet a read works on: the named one, or the active one when no name is given.\<close>

definition select_sheet :: "workbook \<Rightarrow> string option \<Rightarrow> nat raises" where
  "select_sheet wb sheet_name =
     (if given sheet_name then named_sheet wb (str_or sheet_name [])
      else (case active wb of
              None \<Rightarrow> Inl (quote ''NoneType'' @ '' object has no attribute '' @ quote ''title'')
            | Some i \<Rightarrow> Inr i))"

definition read_body :: "filesystem \<Rightarrow> string \<Rightarrow> string option \<Rightarrow> string option \<Rightarrow> pydict raises" where
  "read_body fs file_path sheet_name cell_range =
     (if fs file_path = None then Inl (''File not found: '' @ file_path)
      else
        bind_raises (load_workbook fs file_path True) (\<lambda>wb.
        bind_raises (select_sheet wb sheet_name) (\<lambda>i.
        let ws = sheets wb ! i in
        bind_raises
          (if given cell_range
           then bind_raises (ws_getitem ws (str_or cell_range [])) (read_range ws)
           else Inr (read_rows ws (iter_rows ws None None None None))) (\<lambda>data.
        bind_raises
          (if given cell_range then Inr (str_or cell_range [])
           else bind_raises (get_column_letter (max_column ws))
                  (\<lambda>l. Inr (''A1:'' @ l @ str_of_nat (max_row ws)))) (\<lambda>rng.
        Inr [(''success'', PBool True),
             (''data'', PList (map PList data)),
             (''sheet_name'', PStr (title ws)),
             (''range'', PStr rng),
             (''rows'', PInt (int (length data))),
             (''columns'', PInt (case data of [] \<Rightarrow> 0 | r # _ \<Rightarrow> int (length r)))])))))"

definition read_excel_file :: "filesystem \<Rightarrow> string \<Rightarrow> string option \<Rightarrow> string option \<Rightarrow> pydict" where
  "read_excel_file fs file_path sheet_name cell_range =
     (case read_body fs file_path sheet_name cell_range of
        Inr d \<Rightarrow> d
      | Inl e \<Rightarrow> [(''success'', PBool False), (''error'', PStr e), (''data'', PList [])])"

subsection \<open>\<^verbatim>\<open>write_excel_file\<close>\<close>

text \<open>The inner and the outer loop over \<^verbatim>\<open>enumerate\<close>.\<close>

fun write_values :: "worksheet \<Rightarrow> nat \<Rightarrow> nat \<Rightarrow> pyval list \<Rightarrow> worksheet raises" where
  "write_values ws row col [] = Inr ws"
| "write_values ws row col (v # vs) =
     bind_raises (ws_cell ws row col v) (\<lambda>ws'. write_values ws' row (Suc col) vs)"

fun write_data :: "worksheet \<Rightarrow> nat \<Rightarrow> pyval list list \<Rightarrow> worksheet raises" where
  "write_data ws row [] = Inr ws"
| "write_data ws row (row_data # rest) =
     bind_raises (write_values ws row 1 row_data) (\<lambda>ws'. write_data ws' (Suc row) rest)"

definition write_body ::
  "(string list \<Rightarrow> string \<Rightarrow> string) \<Rightarrow> filesystem \<Rightarrow> string \<Rightarrow> pyval list list \<Rightarrow> string option
     \<Rightarrow> string list option \<Rightarrow> (filesystem \<times> pydict) raises" where
  "write_body numbered fs file_path data sheet_name headers =
     (if data = [] then Inl ''No data provided to write''
      else
        bind_raises
          (if fs file_path \<noteq> None then load_workbook fs file_path False
           else Inr (if given sheet_name \<and> ''Sheet'' \<in> set (sheetnames new_workbook)
                     then remove_sheet new_workbook ''Sheet'' else new_workbook)) (\<lambda>wb.
        bind_raises
          (if given sheet_name then
             (case sheet_index (sheets wb) (str_or sheet_name []) of
                Some i \<Rightarrow> Inr (put_sheet wb i (delete_rows (sheets wb ! i) 1 (max_row (sheets wb ! i))), i)
              | None \<Rightarrow>
                  bind_raises (create_sheet numbered wb (str_or sheet_name []))
                    (\<lambda>wb'. Inr (wb', length (sheets wb))))
           else (case active wb of
                   None \<Rightarrow> Inl (quote ''NoneType'' @ '' object has no attribute '' @ quote ''title'')
                 | Some i \<Rightarrow> Inr (wb, i))) (\<lambda>(wb1, i).
        let ws = sheets wb1 ! i;
            has_headers = (case headers of None \<Rightarrow> False | Some hs \<Rightarrow> hs \<noteq> []) in
        bind_raises
          (if has_headers then write_values ws 1 1 (map PStr (case headers of None \<Rightarrow> [] | Some hs \<Rightarrow> hs))
           else Inr ws) (\<lambda>ws1.
        bind_raises (write_data ws1 (1 + (if has_headers then 1 else 0)) data) (\<lambda>ws2.
        Inr (save fs file_path (put_sheet wb1 i ws2),
             [(''success'', PBool True),
              (''file_path'', PStr file_path),
              (''sheet_name'', PStr (if given sheet_name then str_or sheet_name [] else title ws)),
              (''rows_written'', PInt (int (length data))),
              (''columns_written'', PInt (int (length (hd data)))),
              (''headers_added'', PBool has_headers)]))))))"

definition write_excel_file ::
  "(string list \<Rightarrow> string \<Rightarrow> string) \<Rightarrow> filesystem \<Rightarrow> string \<Rightarrow> pyval list list \<Rightarrow> string option
     \<Rightarrow> string list option \<Rightarrow> filesystem \<times> pydict" where
  "write_excel_file numbered fs file_path data sheet_name headers =
     (case write_body numbered fs file_path data sheet_name headers of
        Inr r \<Rightarrow> r
      | Inl e \<Rightarrow> (fs, failure e))"

subsection \<open>\<^verbatim>\<open>get_worksheet_info\<close> and \<^verbatim>\<open>add_worksheet\<close>\<close>

text \<open>The loop over \<^verbatim>\<open>workbook.sheetnames\<close>, each worksheet fetched by its name.\<close>

fun sheet_infos :: "workbook \<Rightarrow> string list \<Rightarrow> pyval list raises" where
  "sheet_infos wb [] = Inr []"
| "sheet_infos wb (name # names) =
     bind_raises (named_sheet wb name) (\<lambda>i.
     let ws = sheets wb ! i in
     bind_raises (get_column_letter (max_column ws)) (\<lambda>l.
     bind_raises (sheet_infos wb names) (\<lambda>infos.
     Inr (PDict [(''name'', PStr name),
                 (''max_row'', PInt (int (max_row ws))),
                 (''max_column'', PInt (int (max_column ws))),
                 (''max_column_letter'', PStr l),
                 (''is_active'', PBool (active wb = Some i))] # infos))))"

definition info_body :: "filesystem \<Rightarrow> string \<Rightarrow> pydict raises" where
  "info_body fs file_path =
     (if fs file_path = None then Inl (''File not found: '' @ file_path)
      else
        bind_raises (load_workbook fs file_path True) (\<lambda>wb.
        bind_raises (sheet_infos wb (sheetnames wb)) (\<lambda>worksheets.
        Inr [(''success'', PBool True),
             (''file_path'', PStr file_path),
             (''total_worksheets'', PInt (int (length worksheets))),
             (''worksheets'', PList worksheets)])))"

definition get_worksheet_info :: "filesystem \<Rightarrow> string \<Rightarrow> pydict" where
  "get_worksheet_info fs file_path =
     (case info_body fs file_path of Inr d \<Rightarrow> d | Inl e \<Rightarrow> failure e)"

definition add_body ::
  "(string list \<Rightarrow> string \<Rightarrow> string) \<Rightarrow> filesystem \<Rightarrow> string \<Rightarrow> string \<Rightarrow> (filesystem \<times> pydict) raises" where
  "add_body numbered fs file_path sheet_name =
     (if fs file_path = None then Inl (''File not found: '' @ file_path)
      else
        bind_raises (load_workbook fs file_path False) (\<lambda>wb.
        if sheet_name \<in> set (sheetnames wb)
        then Inl (''Worksheet '' @ quote sheet_name @ '' already exists'')
        else
          bind_raises (create_sheet numbered wb sheet_name) (\<lambda>wb'.
          Inr (save fs file_path wb',
               [(''success'', PBool True),
                (''file_path'', PStr file_path),
                (''sheet_name'', PStr sheet_name),
                (''message'', PStr (''Worksheet '' @ quote sheet_name @ '' added successfully''))]))))"

definition add_worksheet ::
  "(string list \<Rightarrow> string \<Rightarrow> string) \<Rightarrow> filesystem \<Rightarrow> string \<Rightarrow> string \<Rightarrow> filesystem \<times> pydict" where
  "add_worksheet numbered fs file_path sheet_name =
     (case add_body numbered fs file_path sheet_name of Inr r \<Rightarrow> r | Inl e \<Rightarrow> (fs, failure e))"

subsection \<open>\<^verbatim>\<open>update_cell\<close> and \<^verbatim>\<open>apply_formula\<close>\<close>

definition update_body ::
  "filesystem \<Rightarrow> string \<Rightarrow> string \<Rightarrow> string \<Rightarrow> pyval \<Rightarrow> (filesystem \<times> pydict) raises" where
  "update_body fs file_path sheet_name cell_ref v =
     (if fs file_path = None then Inl (''File not found: '' @ file_path)
      else
        bind_raises (load_workbook fs file_path False) (\<lambda>wb.
        bind_raises (named_sheet wb sheet_name) (\<lambda>i.
        bind_raises (ws_setitem (sheets wb ! i) cell_ref v) (\<lambda>ws'.
        Inr (save fs file_path (put_sheet wb i ws'),
             [(''success'', PBool True),
              (''file_path'', PStr file_path),
              (''sheet_name'', PStr sheet_name),
              (''cell'', PStr cell_ref),
              (''value'', v),
              (''message'', PStr (''Cell '' @ cell_ref @ '' updated successfully''))])))))"

definition update_cell ::
  "filesystem \<Rightarrow> string \<Rightarrow> string \<Rightarrow> string \<Rightarrow> pyval \<Rightarrow> filesystem \<times> pydict" where
  "update_cell fs file_path sheet_name cell_ref v =
     (case update_body fs file_path sheet_name cell_ref v of Inr r \<Rightarrow> r | Inl e \<Rightarrow> (fs, failure e))"

definition formula_body ::
  "filesystem \<Rightarrow> string \<Rightarrow> string \<Rightarrow> string \<Rightarrow> string \<Rightarrow> (filesystem \<times> pydict) raises" where
  "formula_body fs file_path sheet_name cell_ref formula =
     (if fs file_path = None then Inl (''File not found: '' @ file_path)
      else
        let formula' = (if take 1 formula = ''='' then formula else ''='' @ formula) in
        bind_raises (load_workbook fs file_path False) (\<lambda>wb.
        bind_raises (named_sheet wb sheet_name) (\<lambda>i.
        bind_raises (ws_setitem (sheets wb ! i) cell_ref (PStr formula')) (\<lambda>ws'.
        Inr (save fs file_path (put_sheet wb i ws'),
             [(''success'', PBool True),
              (''file_path'', PStr file_path),
              (''sheet_name'', PStr sheet_name),
              (''cell'', PStr cell_ref),
              (''formula'', PStr formula'),
              (''message'', PStr (''Formula applied to cell '' @ cell_ref @ '' successfully''))])))))"

definition apply_formula ::
  "filesystem \<Rightarrow> string \<Rightarrow> string \<Rightarrow> string \<Rightarrow> string \<Rightarrow> filesystem \<times> pydict" where
  "apply_formula fs file_path sheet_name cell_ref formula =
     (case formula_body fs file_path sheet_name cell_ref formula of Inr r \<Rightarrow> r | Inl e \<Rightarrow> (fs, failure e))"

subsection \<open>\<^verbatim>\<open>format_cells\<close>\<close>

text \<open>
  The options dictionary with its six keys, each present or not. The source tests every
  key with \<^verbatim>\<open>format_options.get(key)\<close>, so a key that is present with a false value
  (\<^verbatim>\<open>False\<close>, 0, the empty string) counts as absent.
\<close>

record format_options =
  opt_bold :: "bool option"
  opt_italic :: "bool option"
  opt_font_size :: "int option"
  opt_font_color :: "string option"
  opt_background_color :: "string option"
  opt_number_format :: "string option"

definition options_dict :: "format_options \<Rightarrow> pydict" where
  "options_dict opts =
     (case opt_bold opts of None \<Rightarrow> [] | Some b \<Rightarrow> [(''bold'', PBool b)]) @
     (case opt_italic opts of None \<Rightarrow> [] | Some b \<Rightarrow> [(''italic'', PBool b)]) @
     (case opt_font_size opts of None \<Rightarrow> [] | Some n \<Rightarrow> [(''font_size'', PInt n)]) @
     (case opt_font_color opts of None \<Rightarrow> [] | Some c \<Rightarrow> [(''font_color'', PStr c)]) @
     (case opt_background_color opts of None \<Rightarrow> [] | Some c \<Rightarrow> [(''background_color'', PStr c)]) @
     (case opt_number_format opts of None \<Rightarrow> [] | Some f \<Rightarrow> [(''number_format'', PStr f)])"

definition is_hex :: "char \<Rightarrow> bool" where
  "is_hex c = (let n = (of_char c :: nat) in
                 (48 \<le> n \<and> n \<le> 57) \<or> (65 \<le> n \<and> n \<le> 70) \<or> (97 \<le> n \<and> n \<le> 102))"

text \<open>
  A colour given as a string (\<^verbatim>\<open>openpyxl.styles.colors.Color(rgb=...)\<close>): six or eight
  hexadecimal digits, six being prefixed with \<^verbatim>\<open>00\<close>.
\<close>

definition rgb :: "string \<Rightarrow> string raises" where
  "rgb v =
     (let t = (if v \<noteq> [] \<and> last v = CHR 0x0A then butlast v else v) in
      if (length t = 8 \<or> length t = 6) \<and> list_all is_hex t
      then Inr (if length v = 6 then ''00'' @ v else v)
      else Inl ''Colors must be aRGB hex values'')"

text \<open>
  \<^verbatim>\<open>font_kwargs\<close> and \<^verbatim>\<open>Font(**font_kwargs) if font_kwargs else None\<close>: the new
  font holds the given attributes and nothing else.
\<close>

definition make_font :: "format_options \<Rightarrow> pyfont option raises" where
  "make_font opts =
     (let b = (opt_bold opts = Some True);
          i = (opt_italic opts = Some True);
          s = (case opt_font_size opts of None \<Rightarrow> False | Some n \<Rightarrow> n \<noteq> 0);
          c = given (opt_font_color opts)
      in if \<not> (b \<or> i \<or> s \<or> c) then Inr None
         else
           bind_raises (if c then bind_raises (rgb (str_or (opt_font_color opts) [])) (\<lambda>x. Inr (Some x))
                        else Inr None) (\<lambda>col.
           Inr (Some \<lparr>bold = (if b then Some True else None),
                      italic = (if i then Some True else None),
                      sz = (if s then opt_font_size opts else None),
                      color = col\<rparr>)))"

definition make_fill :: "format_options \<Rightarrow> string option raises" where
  "make_fill opts =
     (if given (opt_background_color opts)
      then bind_raises (rgb (str_or (opt_background_color opts) [])) (\<lambda>x. Inr (Some x))
      else Inr None)"

text \<open>The body of the inner loop, on one cell.\<close>

definition style_cell :: "pyfont option \<Rightarrow> string option \<Rightarrow> string option \<Rightarrow> cell \<Rightarrow> cell" where
  "style_cell fnt fl nf c =
     (let c1 = (case fnt of None \<Rightarrow> c | Some f \<Rightarrow> c\<lparr>font := Some f\<rparr>);
          c2 = (case fl of None \<Rightarrow> c1 | Some x \<Rightarrow> c1\<lparr>fill := Some x\<rparr>)
      in if given nf then c2\<lparr>number_format := str_or nf []\<rparr> else c2)"

text \<open>
  \<^verbatim>\<open>for row in worksheet[cell_range]: for cell in row: ...\<close>. A single cell is not
  iterable, and neither are the cells of a flat tuple.
\<close>

definition format_selection :: "worksheet \<Rightarrow> selection \<Rightarrow> (cell \<Rightarrow> cell) \<Rightarrow> worksheet raises" where
  "format_selection ws sel f =
     (case sel of
        Grid rows \<Rightarrow> Inr (fold (\<lambda>row w. fold (\<lambda>k w'. modify w' k f) row w) rows ws)
      | Flat ks \<Rightarrow> (if ks = [] then Inr ws else Inl cell_not_iterable)
      | OneCell k \<Rightarrow> Inl cell_not_iterable)"

definition format_body ::
  "filesystem \<Rightarrow> string \<Rightarrow> string \<Rightarrow> string \<Rightarrow> format_options \<Rightarrow> (filesystem \<times> pydict) raises" where
  "format_body fs file_path sheet_name cell_range opts =
     (if fs file_path = None then Inl (''File not found: '' @ file_path)
      else
        bind_raises (load_workbook fs file_path False) (\<lambda>wb.
        bind_raises (named_sheet wb sheet_name) (\<lambda>i.
        bind_raises (make_font opts) (\<lambda>fnt.
        bind_raises (make_fill opts) (\<lambda>fl.
        let ws = sheets wb ! i in
        bind_raises (ws_getitem ws cell_range) (\<lambda>sel.
        bind_raises (format_selection (touch_all ws (selected sel)) sel
                       (style_cell fnt fl (opt_number_format opts))) (\<lambda>ws'.
        Inr (save fs file_path (put_sheet wb i ws'),
             [(''success'', PBool True),
              (''file_path'', PStr file_path),
              (''sheet_name'', PStr sheet_name),
              (''range'', PStr cell_range),
              (''format_options'', PDict (options_dict opts)),
              (''message'', PStr (''Formatting applied to range '' @ cell_range @ '' successfully''))]))))))))"

definition format_cells ::
  "filesystem \<Rightarrow> string \<Rightarrow> string \<Rightarrow> string \<Rightarrow> format_options \<Rightarrow> filesystem \<times> pydict" where
  "format_cells fs file_path sheet_name cell_range opts =
     (case format_body fs file_path sheet_name cell_range opts of Inr r \<Rightarrow> r | Inl e \<Rightarrow> (fs, failure e))"

subsection \<open>\<^verbatim>\<open>create_chart\<close>\<close>

text \<open>
  The chart library's \<^verbatim>\<open>Reference(worksheet, range_string=...)\<close> and
  \<^verbatim>\<open>chart.add_data(data, titles_from_data=True)\<close> are the parameter \<open>reference\<close>:
  from the sheet-qualified range string to the data reference the chart keeps, or an
  exception.
\<close>

definition chart_types :: "string list" where
  "chart_types = [''line'', ''bar'', ''pie'', ''scatter'']"

text \<open>\<^verbatim>\<open>str.title()\<close> on one of the four chart type names.\<close>

definition title_case :: "string \<Rightarrow> string" where
  "title_case t = (case t of [] \<Rightarrow> [] | c # cs \<Rightarrow> char_of ((of_char c :: nat) - 32) # cs)"

definition chart_body ::
  "(string \<Rightarrow> string raises) \<Rightarrow> filesystem \<Rightarrow> string \<Rightarrow> string \<Rightarrow> string \<Rightarrow> string \<Rightarrow> string option
     \<Rightarrow> string option \<Rightarrow> (filesystem \<times> pydict) raises" where
  "chart_body reference fs file_path sheet_name data_range kind ttl position =
     (if fs file_path = None then Inl (''File not found: '' @ file_path)
      else if kind \<notin> set chart_types then Inl (''Unsupported chart type: '' @ kind)
      else
        bind_raises (load_workbook fs file_path False) (\<lambda>wb.
        bind_raises (named_sheet wb sheet_name) (\<lambda>i.
        bind_raises (reference (sheet_name @ ''!'' @ data_range)) (\<lambda>ref.
        let ws = sheets wb ! i;
            ch = \<lparr>chart_type = kind,
                  chart_title = (if given ttl then ttl else None),
                  chart_data = ref,
                  anchor = str_or position ''E5''\<rparr>
        in Inr (save fs file_path (put_sheet wb i (ws\<lparr>charts := charts ws @ [ch]\<rparr>)),
                [(''success'', PBool True),
                 (''file_path'', PStr file_path),
                 (''sheet_name'', PStr sheet_name),
                 (''data_range'', PStr data_range),
                 (''chart_type'', PStr kind),
                 (''title'', opt_str ttl),
                 (''position'', PStr (str_or position ''E5'')),
                 (''message'', PStr (title_case kind @ '' chart created successfully''))])))))"

definition create_chart ::
  "(string \<Rightarrow> string raises) \<Rightarrow> filesystem \<Rightarrow> string \<Rightarrow> string \<Rightarrow> string \<Rightarrow> string \<Rightarrow> string option
     \<Rightarrow> string option \<Rightarrow> filesystem \<times> pydict" where
  "create_chart reference fs file_path sheet_name data_range kind ttl position =
     (case chart_body reference fs file_path sheet_name data_range kind ttl position of
        Inr r \<Rightarrow> r
      | Inl e \<Rightarrow> (fs, failure e))"

section \<open>Observations and example containers\<close>

text \<open>The cell a container stores at a coordinate of a named worksheet.\<close>

definition stored_sheet :: "filesystem \<Rightarrow> string \<Rightarrow> string \<Rightarrow> worksheet option" where
  "stored_sheet fs p s =
     (case fs p of
        Some (Container wb) \<Rightarrow>
          (case sheet_index (sheets wb) s of Some i \<Rightarrow> Some (sheets wb ! i) | None \<Rightarrow> None)
      | _ \<Rightarrow> None)"

definition stored_cell :: "filesystem \<Rightarrow> string \<Rightarrow> string \<Rightarrow> coord \<Rightarrow> cell option" where
  "stored_cell fs p s k = map_option (\<lambda>ws. cell_at ws k) (stored_sheet fs p s)"


definition num_cell :: "int \<Rightarrow> cell" where
  "num_cell n = empty_cell\<lparr>content := CNum n\<rparr>"

text \<open>\<^verbatim>\<open>book.xlsx\<close> with one worksheet \<^verbatim>\<open>S\<close> holding 1, 2, 3 in A1, B1, C1.\<close>

definition example_sheet :: worksheet where
  "example_sheet =
     \<lparr>title = ''S'',
      cells = fmupd (1, 1) (num_cell 1) (fmupd (1, 2) (num_cell 2) (fmupd (1, 3) (num_cell 3) fmempty)),
      charts = []\<rparr>"

definition example_fs :: filesystem where
  "example_fs = (\<lambda>p. None)(''book.xlsx'' := Some (Container \<lparr>sheets = [example_sheet], active_index = 0\<rparr>))"

text \<open>\<^verbatim>\<open>book.xlsx\<close> whose active worksheet \<^verbatim>\<open>Sheet\<close> holds 1 in A1 and 2 in A2.\<close>

definition two_rows_fs :: filesystem where
  "two_rows_fs =
     (\<lambda>p. None)(''book.xlsx'' := Some (Container
       \<lparr>sheets = [\<lparr>title = ''Sheet'',
                   cells = fmupd (1, 1) (num_cell 1) (fmupd (2, 1) (num_cell 2) fmempty),
                   charts = []\<rparr>],
        active_index = 0\<rparr>))"


definition bold_only :: format_options where
  "bold_only = \<lparr>opt_bold = Some True, opt_italic = None, opt_font_size = None, opt_font_color = None,
                 opt_background_color = None, opt_number_format = None\<rparr>"


text \<open>
  The uniform result shape: \<^verbatim>\<open>success\<close> is \<^verbatim>\<open>True\<close>, or it is \<^verbatim>\<open>False\<close> and
  \<^verbatim>\<open>error\<close> holds a message.
\<close>

definition uniform :: "pydict \<Rightarrow> bool" where
  "uniform d =
     (case map_of d ''success'' of
        Some (PBool True) \<Rightarrow> True
      | Some (PBool False) \<Rightarrow> (case map_of d ''error'' of Some (PStr e) \<Rightarrow> True | _ \<Rightarrow> False)
      | _ \<Rightarrow> False)"

definition succeeded :: "pydict \<Rightarrow> bool" where
  "succeeded d = (map_of d ''success'' = Some (PBool True))"

text \<open>Rows and columns are numbered from 1: a worksheet whose cells all lie at row 1 or
  below and column 1 or to the right.\<close>

definition one_based :: "worksheet \<Rightarrow> bool" where
  "one_based ws = (\<forall>k \<in> fmdom' (cells ws). 1 \<le> fst k \<and> 1 \<le> snd k)"

section \<open>Basic facts\<close>

lemma fmmap_fmupd: "fmmap f (fmupd k v m) = fmupd k (f v) (fmmap f m)"
  by (rule fmap_ext) simp

lemma fmlookup_written_cells:
  "fmlookup (written_cells m) k =
     (case fmlookup m k of
        None \<Rightarrow> None
      | Some c \<Rightarrow> if is_blank c then None else Some (c\<lparr>cached := None\<rparr>))"
  by (simp add: written_cells_def split: option.splits)

lemma written_cells_id:
  assumes "\<And>k c. fmlookup m k = Some c \<Longrightarrow> \<not> is_blank c \<and> cached c = None"
  shows "written_cells m = m"
proof (rule fmap_ext)
  fix k
  show "fmlookup (written_cells m) k = fmlookup m k"
    using assms [of k] by (cases "fmlookup m k") (simp_all add: fmlookup_written_cells)
qed

subsection \<open>Exceptions and results\<close>

lemma bind_raisesE:
  assumes "bind_raises m f = Inr y"
  obtains x where "m = Inr x" and "f x = Inr y"
  using assms by (cases m) (simp_all add: bind_raises_def)

lemma bind_raises_Inr_simp [simp]: "bind_raises (Inr x) f = f x"
  by (simp add: bind_raises_def)

lemma bind_raises_Inl_simp [simp]: "bind_raises (Inl e) f = Inl e"
  by (simp add: bind_raises_def)

lemma uniform_failure: "uniform (failure e)"
  by (simp add: uniform_def failure_def)

lemma uniform_succeeded: "succeeded d \<Longrightarrow> uniform d"
  by (simp add: uniform_def succeeded_def)


lemma read_body_succeeded: "read_body fs p s r = Inr d \<Longrightarrow> succeeded d"
  unfolding read_body_def Let_def
  by (auto elim!: bind_raisesE simp: succeeded_def split: if_splits)

lemma info_body_succeeded: "info_body fs p = Inr d \<Longrightarrow> succeeded d"
  unfolding info_body_def Let_def
  by (auto elim!: bind_raisesE simp: succeeded_def split: if_splits)

lemma write_body_succeeded: "write_body numbered fs p d s h = Inr r \<Longrightarrow> succeeded (snd r)"
  unfolding write_body_def Let_def
  by (auto elim!: bind_raisesE simp: succeeded_def split: if_splits prod.splits)

lemma add_body_succeeded: "add_body numbered fs p s = Inr r \<Longrightarrow> succeeded (snd r)"
  unfolding add_body_def Let_def
  by (auto elim!: bind_raisesE simp: succeeded_def split: if_splits)

lemma update_body_succeeded: "update_body fs p s c v = Inr r \<Longrightarrow> succeeded (snd r)"
  unfolding update_body_def Let_def
  by (auto elim!: bind_raisesE simp: succeeded_def split: if_splits)

lemma formula_body_succeeded: "formula_body fs p s c f = Inr r \<Longrightarrow> succeeded (snd r)"
  unfolding formula_body_def Let_def
  by (auto elim!: bind_raisesE simp: succeeded_def split: if_splits)

lemma format_body_succeeded: "format_body fs p s c opts = Inr r \<Longrightarrow> succeeded (snd r)"
  unfolding format_body_def Let_def
  by (auto elim!: bind_raisesE simp: succeeded_def split: if_splits)

lemma chart_body_succeeded: "chart_body reference fs p s dr k t pos = Inr r \<Longrightarrow> succeeded (snd r)"
  unfolding chart_body_def Let_def
  by (auto elim!: bind_raisesE simp: succeeded_def split: if_splits)

subsection \<open>Worksheets and cells\<close>

lemma sheet_index_Some: "sheet_index xs n = Some i \<Longrightarrow> i < length xs \<and> title (xs ! i) = n"
proof (induction xs arbitrary: i)
  case Nil
  then show ?case by simp
next
  case (Cons a xs)
  then show ?case by (auto split: if_splits)
qed


lemma sheet_index_map:
  assumes "\<And>w. title (g w) = title w"
  shows "sheet_index (map g xs) n = sheet_index xs n"
  by (induction xs) (simp_all add: assms)

lemma sheet_index_update:
  assumes "i < length xs" and "title w = title (xs ! i)"
  shows "sheet_index (xs[i := w]) n = sheet_index xs n"
  using assms
proof (induction xs arbitrary: i)
  case Nil
  then show ?case by simp
next
  case (Cons a xs)
  then show ?case by (cases i) simp_all
qed

lemma cell_at_modify: "cell_at (modify ws k f) k' = (if k' = k then f (cell_at ws k) else cell_at ws k')"
  by (simp add: cell_at_def modify_def)

lemma cell_at_touch: "cell_at (touch ws k) k' = cell_at ws k'"
  by (simp add: cell_at_def touch_def split: option.splits)

lemma cell_at_touch_all: "cell_at (touch_all ws ks) k' = cell_at ws k'"
  unfolding touch_all_def
  by (induction ks arbitrary: ws) (simp_all add: cell_at_touch)

lemma title_modify [simp]: "title (modify ws k f) = title ws"
  by (simp add: modify_def)

lemma title_touch [simp]: "title (touch ws k) = title ws"
  by (simp add: touch_def)

lemma title_touch_all [simp]: "title (touch_all ws ks) = title ws"
  unfolding touch_all_def
  by (induction ks arbitrary: ws) simp_all

lemma cell_at_fold_modify:
  assumes "\<And>c. f (f c) = f c"
  shows "cell_at (fold (\<lambda>k w. modify w k f) ks ws) k =
           (if k \<in> set ks then f (cell_at ws k) else cell_at ws k)"
  by (induction ks arbitrary: ws) (simp_all add: cell_at_modify assms)

lemma title_fold_modify [simp]: "title (fold (\<lambda>k w. modify w k f) ks ws) = title ws"
  by (induction ks arbitrary: ws) simp_all

lemma cell_at_fold_rows:
  assumes "\<And>c. f (f c) = f c"
  shows "cell_at (fold (\<lambda>row w. fold (\<lambda>k w'. modify w' k f) row w) rows ws) k =
           (if k \<in> set (concat rows) then f (cell_at ws k) else cell_at ws k)"
  by (induction rows arbitrary: ws) (auto simp: cell_at_fold_modify assms)

lemma title_fold_rows [simp]:
  "title (fold (\<lambda>row w. fold (\<lambda>k w'. modify w' k f) row w) rows ws) = title ws"
  by (induction rows arbitrary: ws) simp_all

lemma style_cell_idem: "style_cell fnt fl nf (style_cell fnt fl nf c) = style_cell fnt fl nf c"
  by (simp add: style_cell_def Let_def split: option.splits)

lemma format_selection_cell_at:
  assumes "format_selection (touch_all ws (selected sel)) sel f = Inr ws'" and "\<And>c. f (f c) = f c"
  shows "cell_at ws' k = (if k \<in> set (selected sel) then f (cell_at ws k) else cell_at ws k)"
    and "title ws' = title ws"
  using assms
  by (auto simp: format_selection_def selected_def cell_at_fold_rows cell_at_touch_all
      split: selection.splits if_splits)

lemma cell_at_written:
  "cell_at (ws\<lparr>cells := written_cells (cells ws)\<rparr>) k = (cell_at ws k)\<lparr>cached := None\<rparr>"
  by (auto simp: cell_at_def fmlookup_written_cells is_blank_def has_style_def empty_cell_def
      split: option.splits)

subsection \<open>The effect of formatting\<close>

lemma load_workbook_InrE:
  assumes "load_workbook fs p data_only = Inr wb'"
  obtains wb where "fs p = Some (Container wb)" and "supported_format p"
    and "wb' = (if data_only then map_cells data_only_cell wb else wb)"
  using assms
  by (auto simp: load_workbook_def split: option.splits if_splits stored_file.splits)

lemma named_sheet_InrE:
  assumes "named_sheet wb s = Inr i"
  obtains "sheet_index (sheets wb) s = Some i" and "i < length (sheets wb)" and "title (sheets wb ! i) = s"
  using assms sheet_index_Some [of "sheets wb" s i]
  by (auto simp: named_sheet_def split: option.splits)

lemma format_body_InrE:
  assumes "format_body fs p s r opts = Inr res"
  obtains wb i fnt fl sel ws' where
    "fs p = Some (Container wb)" and "supported_format p"
    and "sheet_index (sheets wb) s = Some i" and "i < length (sheets wb)"
    and "make_font opts = Inr fnt" and "make_fill opts = Inr fl"
    and "ws_getitem (sheets wb ! i) r = Inr sel"
    and "format_selection (touch_all (sheets wb ! i) (selected sel)) sel
           (style_cell fnt fl (opt_number_format opts)) = Inr ws'"
    and "fst res = save fs p (put_sheet wb i ws')"
  using assms unfolding format_body_def Let_def
  by (auto elim!: bind_raisesE load_workbook_InrE named_sheet_InrE split: if_splits)




subsection \<open>Operations that fail\<close>







subsection \<open>Ranges\<close>

lemma in_cells_by_row:
  "(r, c) \<in> set (concat (cells_by_row c1 r1 c2 r2)) \<longleftrightarrow> r1 \<le> r \<and> r \<le> r2 \<and> c1 \<le> c \<and> c \<le> c2"
  unfolding cells_by_row_def by (simp add: image_iff less_Suc_eq_le del: atLeastLessThanSuc) auto

lemma in_cells_by_col:
  "(r, c) \<in> set (concat (cells_by_col c1 r1 c2 r2)) \<longleftrightarrow> r1 \<le> r \<and> r \<le> r2 \<and> c1 \<le> c \<and> c \<le> c2"
  unfolding cells_by_col_def by (simp add: image_iff less_Suc_eq_le del: atLeastLessThanSuc) auto

lemma map_filter_cell_error:
  "List.map_filter cell_error ks = [] \<longleftrightarrow> list_all (\<lambda>k. cell_error k = None) ks"
  by (induction ks) (auto simp: List.map_filter_def)

lemma force_Inr_iff:
  "force rows = Inr rows' \<longleftrightarrow> rows' = rows \<and> list_all (\<lambda>k. cell_error k = None) (concat rows)"
proof (cases "List.map_filter cell_error (concat rows)")
  case Nil
  then show ?thesis
    using map_filter_cell_error [of "concat rows"] by (auto simp: force_def)
next
  case (Cons e es)
  then show ?thesis
    using map_filter_cell_error [of "concat rows"] by (simp add: force_def)
qed



subsection \<open>Reading\<close>

lemma fmdom'_with_cells [simp]: "fmdom' (cells (with_cells f ws)) = fmdom' (cells ws)"
  by (simp add: with_cells_def)






subsection \<open>Reading a whole worksheet\<close>

lemma finite_fmdom' [simp]: "finite (fmdom' m)"
  by (simp add: fmdom'_alt_def)

lemma in_bounds:
  assumes "k \<in> fmdom' (cells ws)"
  shows "fst k \<le> max_row ws" and "snd k \<le> max_column ws"
  using assms by (auto simp: max_row_def max_column_def)





lemma max_row_with_cells [simp]: "max_row (with_cells f ws) = max_row ws"
  by (simp add: max_row_def)

lemma max_column_with_cells [simp]: "max_column (with_cells f ws) = max_column ws"
  by (simp add: max_column_def)

lemma title_with_cells [simp]: "title (with_cells f ws) = title ws"
  by (simp add: with_cells_def)


subsection \<open>Worksheet names\<close>

lemma sheetnames_written [simp]: "sheetnames (written wb) = sheetnames wb"
  by (simp add: sheetnames_def written_def comp_def)





lemma title_delete_rows [simp]: "title (delete_rows ws idx amount) = title ws"
  by (simp add: delete_rows_def Let_def)















subsection \<open>Formatting a second time\<close>

text \<open>On a worksheet numbered from 1, the bounds a reference takes from the worksheet do
  not grow when cells are added inside the selection, so the reference selects no new
  coordinate the second time.\<close>

lemma max_row_ge1: "one_based ws \<Longrightarrow> 1 \<le> max_row ws"
proof (cases "fmdom' (cells ws) = {}")
  case True
  then show ?thesis by (simp add: max_row_def)
next
  case False
  assume ob: "one_based ws"
  from False obtain k where k: "k \<in> fmdom' (cells ws)" by blast
  then have "1 \<le> fst k" using ob by (simp add: one_based_def)
  also have "fst k \<le> max_row ws" using k by (rule in_bounds)
  finally show ?thesis .
qed

lemma max_column_ge1: "one_based ws \<Longrightarrow> 1 \<le> max_column ws"
proof (cases "fmdom' (cells ws) = {}")
  case True
  then show ?thesis by (simp add: max_column_def)
next
  case False
  assume ob: "one_based ws"
  from False obtain k where k: "k \<in> fmdom' (cells ws)" by blast
  then have "1 \<le> snd k" using ob by (simp add: one_based_def)
  also have "snd k \<le> max_column ws" using k by (rule in_bounds)
  finally show ?thesis .
qed

lemma max_row_mono:
  assumes "one_based ws" and "fmdom' (cells ws1) \<subseteq> fmdom' (cells ws) \<union> S"
    and "\<And>k. k \<in> S \<Longrightarrow> fst k \<le> max_row ws"
  shows "max_row ws1 \<le> max_row ws"
proof (cases "fmdom' (cells ws1) = {}")
  case True
  then show ?thesis
    using max_row_ge1 [OF assms(1)] by (simp add: max_row_def)
next
  case False
  have "fst k \<le> max_row ws" if "k \<in> fmdom' (cells ws1)" for k
    using that assms(2,3) in_bounds(1) [of k ws] by blast
  then show ?thesis
    using False by (simp add: max_row_def [of ws1])
qed

lemma max_column_mono:
  assumes "one_based ws" and "fmdom' (cells ws1) \<subseteq> fmdom' (cells ws) \<union> S"
    and "\<And>k. k \<in> S \<Longrightarrow> snd k \<le> max_column ws"
  shows "max_column ws1 \<le> max_column ws"
proof (cases "fmdom' (cells ws1) = {}")
  case True
  then show ?thesis
    using max_column_ge1 [OF assms(1)] by (simp add: max_column_def)
next
  case False
  have "snd k \<le> max_column ws" if "k \<in> fmdom' (cells ws1)" for k
    using that assms(2,3) in_bounds(2) [of k ws] by blast
  then show ?thesis
    using False by (simp add: max_column_def [of ws1])
qed

lemma index_or_row_mono:
  assumes "one_based ws" and "fmdom' (cells ws1) \<subseteq> fmdom' (cells ws) \<union> S"
    and "\<And>k. k \<in> S \<Longrightarrow> fst k \<le> index_or d (max_row ws)"
  shows "index_or d (max_row ws1) \<le> index_or d (max_row ws)"
proof (cases "truthy_index d")
  case True
  then show ?thesis
    by (auto simp: truthy_index_def index_or_def split: option.splits)
next
  case False
  then have eq: "index_or d x = x" for x
    by (auto simp: truthy_index_def index_or_def split: option.splits)
  show ?thesis
    using max_row_mono [OF assms(1,2)] assms(3) by (simp add: eq)
qed

lemma index_or_column_mono:
  assumes "one_based ws" and "fmdom' (cells ws1) \<subseteq> fmdom' (cells ws) \<union> S"
    and "\<And>k. k \<in> S \<Longrightarrow> snd k \<le> index_or c (max_column ws)"
  shows "index_or c (max_column ws1) \<le> index_or c (max_column ws)"
proof (cases "truthy_index c")
  case True
  then show ?thesis
    by (auto simp: truthy_index_def index_or_def split: option.splits)
next
  case False
  then have eq: "index_or c x = x" for x
    by (auto simp: truthy_index_def index_or_def split: option.splits)
  show ?thesis
    using max_column_mono [OF assms(1,2)] assms(3) by (simp add: eq)
qed

lemma mem_cells_by_row:
  "k \<in> set (concat (cells_by_row c1 r1 c2 r2)) \<longleftrightarrow>
     r1 \<le> fst k \<and> fst k \<le> r2 \<and> c1 \<le> snd k \<and> snd k \<le> c2"
  using in_cells_by_row [of "fst k" "snd k" c1 r1 c2 r2] by simp

lemma mem_cells_by_col:
  "k \<in> set (concat (cells_by_col c1 r1 c2 r2)) \<longleftrightarrow>
     r1 \<le> fst k \<and> fst k \<le> r2 \<and> c1 \<le> snd k \<and> snd k \<le> c2"
  using in_cells_by_col [of "fst k" "snd k" c1 r1 c2 r2] by simp

lemma cells_by_row_subset:
  assumes "c2' \<le> c2" and "r2' \<le> r2"
  shows "set (concat (cells_by_row c1 r1 c2' r2')) \<subseteq> set (concat (cells_by_row c1 r1 c2 r2))"
proof
  fix k
  assume "k \<in> set (concat (cells_by_row c1 r1 c2' r2'))"
  then show "k \<in> set (concat (cells_by_row c1 r1 c2 r2))"
    using assms by (simp add: mem_cells_by_row del: set_concat)
qed

lemma cells_by_col_subset:
  assumes "c2' \<le> c2" and "r2' \<le> r2"
  shows "set (concat (cells_by_col c1 r1 c2' r2')) \<subseteq> set (concat (cells_by_col c1 r1 c2 r2))"
proof
  fix k
  assume "k \<in> set (concat (cells_by_col c1 r1 c2' r2'))"
  then show "k \<in> set (concat (cells_by_col c1 r1 c2 r2))"
    using assms by (simp add: mem_cells_by_col del: set_concat)
qed

lemma iter_rows_again:
  assumes ob: "one_based ws"
    and dom: "fmdom' (cells ws1) \<subseteq> fmdom' (cells ws) \<union> set (concat (iter_rows ws b d a c))"
  shows "set (concat (iter_rows ws1 b d a c)) \<subseteq> set (concat (iter_rows ws b d a c))"
proof (cases "fmdom' (cells ws) = {} \<and>
         \<not> (truthy_index a \<or> truthy_index b \<or> truthy_index c \<or> truthy_index d)")
  case True
  then have "iter_rows ws b d a c = []"
    by (simp add: iter_rows_def)
  with dom True have "iter_rows ws1 b d a c = []"
    by (simp add: iter_rows_def)
  then show ?thesis by simp
next
  case False
  then have rows: "iter_rows ws b d a c =
      cells_by_row (index_or a 1) (index_or b 1) (index_or c (max_column ws)) (index_or d (max_row ws))"
    by (auto simp: iter_rows_def)
  have r: "index_or d (max_row ws1) \<le> index_or d (max_row ws)"
  proof (rule index_or_row_mono [OF ob dom])
    fix k assume "k \<in> set (concat (iter_rows ws b d a c))"
    then show "fst k \<le> index_or d (max_row ws)"
      by (simp add: rows mem_cells_by_row del: set_concat)
  qed
  have c: "index_or c (max_column ws1) \<le> index_or c (max_column ws)"
  proof (rule index_or_column_mono [OF ob dom])
    fix k assume "k \<in> set (concat (iter_rows ws b d a c))"
    then show "snd k \<le> index_or c (max_column ws)"
      by (simp add: rows mem_cells_by_row del: set_concat)
  qed
  show ?thesis
    using cells_by_row_subset [OF c r] by (auto simp: rows iter_rows_def [of ws1])
qed

lemma iter_cols_again:
  assumes ob: "one_based ws"
    and dom: "fmdom' (cells ws1) \<subseteq> fmdom' (cells ws) \<union> set (concat (iter_cols ws a c b d))"
  shows "set (concat (iter_cols ws1 a c b d)) \<subseteq> set (concat (iter_cols ws a c b d))"
proof (cases "fmdom' (cells ws) = {} \<and>
         \<not> (truthy_index a \<or> truthy_index b \<or> truthy_index c \<or> truthy_index d)")
  case True
  then have "iter_cols ws a c b d = []"
    by (simp add: iter_cols_def)
  with dom True have "iter_cols ws1 a c b d = []"
    by (simp add: iter_cols_def)
  then show ?thesis by simp
next
  case False
  then have cols: "iter_cols ws a c b d =
      cells_by_col (index_or a 1) (index_or b 1) (index_or c (max_column ws)) (index_or d (max_row ws))"
    by (auto simp: iter_cols_def)
  have r: "index_or d (max_row ws1) \<le> index_or d (max_row ws)"
  proof (rule index_or_row_mono [OF ob dom])
    fix k assume "k \<in> set (concat (iter_cols ws a c b d))"
    then show "fst k \<le> index_or d (max_row ws)"
      by (simp add: cols mem_cells_by_col del: set_concat)
  qed
  have c: "index_or c (max_column ws1) \<le> index_or c (max_column ws)"
  proof (rule index_or_column_mono [OF ob dom])
    fix k assume "k \<in> set (concat (iter_cols ws a c b d))"
    then show "snd k \<le> index_or c (max_column ws)"
      by (simp add: cols mem_cells_by_col del: set_concat)
  qed
  show ?thesis
    using cells_by_col_subset [OF c r] by (auto simp: cols iter_cols_def [of ws1])
qed

lemma iter_rows_band_again:
  assumes ob: "one_based ws"
    and dom: "fmdom' (cells ws1) \<subseteq>
                fmdom' (cells ws) \<union> set (concat (iter_rows ws b d None (Some (max_column ws))))"
  shows "set (concat (iter_rows ws1 b d None (Some (max_column ws1))))
           \<subseteq> set (concat (iter_rows ws b d None (Some (max_column ws))))"
proof -
  have m: "1 \<le> max_column ws"
    using ob by (rule max_column_ge1)
  then have rows: "iter_rows ws b d None (Some (max_column ws)) =
      cells_by_row 1 (index_or b 1) (max_column ws) (index_or d (max_row ws))"
    by (auto simp: iter_rows_def truthy_index_def index_or_def)
  have r: "index_or d (max_row ws1) \<le> index_or d (max_row ws)"
  proof (rule index_or_row_mono [OF ob dom])
    fix k assume "k \<in> set (concat (iter_rows ws b d None (Some (max_column ws))))"
    then show "fst k \<le> index_or d (max_row ws)"
      by (simp add: rows mem_cells_by_row del: set_concat)
  qed
  have c: "max_column ws1 \<le> max_column ws"
  proof (rule max_column_mono [OF ob dom])
    fix k assume "k \<in> set (concat (iter_rows ws b d None (Some (max_column ws))))"
    then show "snd k \<le> max_column ws"
      by (simp add: rows mem_cells_by_row del: set_concat)
  qed
  have "iter_rows ws1 b d None (Some (max_column ws1)) = [] \<or>
        iter_rows ws1 b d None (Some (max_column ws1)) =
          cells_by_row 1 (index_or b 1) (max_column ws1) (index_or d (max_row ws1))"
    by (auto simp: iter_rows_def index_or_def)
  then show ?thesis
  proof
    assume "iter_rows ws1 b d None (Some (max_column ws1)) = []"
    then show ?thesis by simp
  next
    assume e: "iter_rows ws1 b d None (Some (max_column ws1)) =
          cells_by_row 1 (index_or b 1) (max_column ws1) (index_or d (max_row ws1))"
    show ?thesis
      unfolding e rows by (rule cells_by_row_subset [OF c r])
  qed
qed

lemma force_ok: "list_all (\<lambda>k. cell_error k = None) (concat rows) \<Longrightarrow> force rows = Inr rows"
  by (simp add: force_Inr_iff)

lemma ws_getitem_Grid:
  assumes "ws_getitem ws key = Inr (Grid rows)"
  shows "\<exists>a b c d. range_boundaries key = Inr (a, b, c, d) \<and>
           (truthy_index a \<or> truthy_index b \<or> truthy_index c \<or> truthy_index d) \<and>
           list_all (\<lambda>k. cell_error k = None) (concat rows) \<and>
           ((b = None \<and> a \<noteq> c \<and> rows = iter_cols ws a c None None) \<or>
            (b \<noteq> None \<and> a = None \<and> b \<noteq> d \<and> rows = iter_rows ws b d None (Some (max_column ws))) \<or>
            (b \<noteq> None \<and> a \<noteq> None \<and> CHR '':'' \<in> set key \<and> rows = iter_rows ws b d a c))"
  using assms unfolding ws_getitem_def
  by (auto elim!: bind_raisesE simp: force_Inr_iff split: if_splits option.splits list.splits)

lemma ws_getitem_columns:
  assumes "range_boundaries key = Inr (a, None, c, d)"
    and "truthy_index a \<or> truthy_index c \<or> truthy_index d"
    and "a \<noteq> c"
    and "list_all (\<lambda>k. cell_error k = None) (concat (iter_cols ws a c None None))"
  shows "ws_getitem ws key = Inr (Grid (iter_cols ws a c None None))"
  using assms by (auto simp: ws_getitem_def force_ok truthy_index_def)

lemma ws_getitem_rows:
  assumes "range_boundaries key = Inr (None, Some b, c, d)"
    and "truthy_index (Some b) \<or> truthy_index c \<or> truthy_index d"
    and "Some b \<noteq> d"
    and "list_all (\<lambda>k. cell_error k = None) (concat (iter_rows ws (Some b) d None (Some (max_column ws))))"
  shows "ws_getitem ws key = Inr (Grid (iter_rows ws (Some b) d None (Some (max_column ws))))"
  using assms by (auto simp: ws_getitem_def force_ok truthy_index_def)

lemma ws_getitem_rectangle:
  assumes "range_boundaries key = Inr (Some a, Some b, c, d)"
    and "truthy_index (Some a) \<or> truthy_index (Some b) \<or> truthy_index c \<or> truthy_index d"
    and "CHR '':'' \<in> set key"
    and "list_all (\<lambda>k. cell_error k = None) (concat (iter_rows ws (Some b) d (Some a) c))"
  shows "ws_getitem ws key = Inr (Grid (iter_rows ws (Some b) d (Some a) c))"
  using assms by (auto simp: ws_getitem_def force_ok)

lemma ws_getitem_again:
  assumes g: "ws_getitem ws key = Inr (Grid rows)" and ob: "one_based ws"
    and dom: "fmdom' (cells ws1) \<subseteq> fmdom' (cells ws) \<union> set (concat rows)"
  shows "\<exists>rows1. ws_getitem ws1 key = Inr (Grid rows1) \<and> set (concat rows1) \<subseteq> set (concat rows)"
proof -
  from ws_getitem_Grid [OF g] obtain a b c d where
    rb: "range_boundaries key = Inr (a, b, c, d)"
    and any: "truthy_index a \<or> truthy_index b \<or> truthy_index c \<or> truthy_index d"
    and ok: "list_all (\<lambda>k. cell_error k = None) (concat rows)"
    and shape: "(b = None \<and> a \<noteq> c \<and> rows = iter_cols ws a c None None) \<or>
            (b \<noteq> None \<and> a = None \<and> b \<noteq> d \<and> rows = iter_rows ws b d None (Some (max_column ws))) \<or>
            (b \<noteq> None \<and> a \<noteq> None \<and> CHR '':'' \<in> set key \<and> rows = iter_rows ws b d a c)"
    by blast
  have still_ok: "list_all (\<lambda>k. cell_error k = None) (concat rows1)"
    if "set (concat rows1) \<subseteq> set (concat rows)" for rows1
    using that ok unfolding list_all_iff by blast
  from shape show ?thesis
  proof (elim disjE conjE)
    assume b: "b = None" and ac: "a \<noteq> c" and rows: "rows = iter_cols ws a c None None"
    have sub: "set (concat (iter_cols ws1 a c None None)) \<subseteq> set (concat rows)"
      unfolding rows by (rule iter_cols_again [OF ob dom [unfolded rows]])
    have "ws_getitem ws1 key = Inr (Grid (iter_cols ws1 a c None None))"
      using rb any ac still_ok [OF sub] unfolding b
      by (intro ws_getitem_columns) (auto simp: truthy_index_def)
    with sub show ?thesis by blast
  next
    assume b: "b \<noteq> None" and a: "a = None" and bd: "b \<noteq> d"
      and rows: "rows = iter_rows ws b d None (Some (max_column ws))"
    from b obtain b' where b': "b = Some b'" by blast
    have sub: "set (concat (iter_rows ws1 b d None (Some (max_column ws1)))) \<subseteq> set (concat rows)"
      unfolding rows by (rule iter_rows_band_again [OF ob dom [unfolded rows]])
    have "ws_getitem ws1 key = Inr (Grid (iter_rows ws1 b d None (Some (max_column ws1))))"
      using rb any bd still_ok [OF sub] unfolding b' a
      by (intro ws_getitem_rows) (auto simp: truthy_index_def)
    with sub show ?thesis by blast
  next
    assume b: "b \<noteq> None" and a: "a \<noteq> None" and colon: "CHR '':'' \<in> set key"
      and rows: "rows = iter_rows ws b d a c"
    from b obtain b' where b': "b = Some b'" by blast
    from a obtain a' where a': "a = Some a'" by blast
    have sub: "set (concat (iter_rows ws1 b d a c)) \<subseteq> set (concat rows)"
      unfolding rows by (rule iter_rows_again [OF ob dom [unfolded rows]])
    have "ws_getitem ws1 key = Inr (Grid (iter_rows ws1 b d a c))"
      using rb any colon still_ok [OF sub] unfolding b' a'
      by (intro ws_getitem_rectangle) auto
    with sub show ?thesis by blast
  qed
qed

lemma cells_by_row_first:
  assumes "cells_by_row c1 r1 c2 r2 = row # rest" and "c1 \<le> c2"
  shows "row \<noteq> []"
  using assms by (auto simp: cells_by_row_def map_eq_Cons_conv)

lemma cells_by_col_first:
  assumes "cells_by_col c1 r1 c2 r2 = col # rest" and "r1 \<le> r2"
  shows "col \<noteq> []"
  using assms by (auto simp: cells_by_col_def map_eq_Cons_conv)

lemma ws_getitem_Flat_nonempty:
  assumes g: "ws_getitem ws key = Inr (Flat ks)" and ob: "one_based ws"
  shows "ks \<noteq> []"
proof -
  have r: "1 \<le> max_row ws" and c: "1 \<le> max_column ws"
    using ob by (rule max_row_ge1, rule max_column_ge1)
  have cols: "col \<noteq> []" if "iter_cols ws a a' None None = col # rest" for a a' col rest
    using that r cells_by_col_first [of "index_or a 1" 1 "index_or a' (max_column ws)" "max_row ws" col rest]
    by (auto simp: iter_cols_def index_or_def split: if_splits)
  have rows: "row \<noteq> []" if "iter_rows ws b b' None (Some (max_column ws)) = row # rest" for b b' row rest
    using that c cells_by_row_first [of 1 "index_or b 1" "max_column ws" "index_or b' (max_row ws)" row rest]
    by (auto simp: iter_rows_def index_or_def split: if_splits)
  show ?thesis
    using g unfolding ws_getitem_def
    by (auto elim!: bind_raisesE simp: force_Inr_iff cols rows split: if_splits option.splits list.splits)
qed

text \<open>What is written of a worksheet depends on its cells only through \<open>cell_at\<close>.\<close>

lemma charts_modify [simp]: "charts (modify ws k f) = charts ws"
  by (simp add: modify_def)

lemma charts_touch [simp]: "charts (touch ws k) = charts ws"
  by (simp add: touch_def)

lemma charts_touch_all [simp]: "charts (touch_all ws ks) = charts ws"
  unfolding touch_all_def
  by (induction ks arbitrary: ws) simp_all

lemma charts_fold_modify [simp]: "charts (fold (\<lambda>k w'. modify w' k f) row ws) = charts ws"
  by (induction row arbitrary: ws) simp_all

lemma charts_fold_rows [simp]:
  "charts (fold (\<lambda>row w. fold (\<lambda>k w'. modify w' k f) row w) rows ws) = charts ws"
  by (induction rows arbitrary: ws) simp_all

lemma is_blank_cached: "is_blank (c\<lparr>cached := x\<rparr>) = is_blank c"
  by (simp add: is_blank_def has_style_def)

lemma style_cell_cached:
  "style_cell fnt fl nf (c\<lparr>cached := x\<rparr>) = (style_cell fnt fl nf c)\<lparr>cached := x\<rparr>"
  by (simp add: style_cell_def Let_def split: option.splits)

lemma written_lookup:
  "fmlookup (written_cells (cells w)) k =
     (if is_blank (cell_at w k) then None else Some ((cell_at w k)\<lparr>cached := None\<rparr>))"
  by (auto simp: fmlookup_written_cells cell_at_def is_blank_def has_style_def empty_cell_def
      split: option.splits)

lemma written_cells_idem: "written_cells (written_cells m) = written_cells m"
proof (rule fmap_ext)
  fix k
  show "fmlookup (written_cells (written_cells m)) k = fmlookup (written_cells m) k"
    by (cases "fmlookup m k") (simp_all add: fmlookup_written_cells is_blank_cached)
qed

lemma written_dom:
  assumes "k \<in> fmdom' (written_cells (cells w))"
  shows "\<not> is_blank (cell_at w k)"
proof
  assume "is_blank (cell_at w k)"
  then have "fmlookup (written_cells (cells w)) k = None"
    by (simp add: written_lookup)
  then have "k \<notin> fmdom' (written_cells (cells w))"
    by (rule fmdom'_notI)
  with assms show False by contradiction
qed

lemma not_blank_dom:
  assumes "\<not> is_blank (cell_at w k)"
  shows "k \<in> fmdom' (cells w)"
proof (rule ccontr)
  assume "k \<notin> fmdom' (cells w)"
  then have "fmlookup (cells w) k = None" by auto
  with assms show False
    by (simp add: cell_at_def empty_cell_def is_blank_def has_style_def)
qed

lemma restyle_written:
  assumes idem: "\<And>c. f (f c) = f c"
    and strip: "\<And>c. f (c\<lparr>cached := None\<rparr>) = (f c)\<lparr>cached := None\<rparr>"
    and c1: "\<And>k. cell_at ws' k = (if k \<in> S then f (cell_at ws k) else cell_at ws k)"
    and c2: "\<And>k. cell_at ws2 k =
                   (if k \<in> S1 then f (cell_at (ws'\<lparr>cells := written_cells (cells ws')\<rparr>) k)
                    else cell_at (ws'\<lparr>cells := written_cells (cells ws')\<rparr>) k)"
    and sub: "S1 \<subseteq> S"
  shows "written_cells (cells ws2) = written_cells (cells ws')"
proof (rule fmap_ext)
  fix k
  have "cell_at ws2 k = (cell_at ws' k)\<lparr>cached := None\<rparr>"
  proof (cases "k \<in> S1")
    case True
    with sub have "k \<in> S" by blast
    then show ?thesis
      using True by (simp add: c1 c2 cell_at_written strip idem)
  next
    case False
    then show ?thesis
      by (simp add: c2 cell_at_written)
  qed
  then show "fmlookup (written_cells (cells ws2)) k = fmlookup (written_cells (cells ws')) k"
    by (simp add: written_lookup is_blank_cached)
qed

lemma format_body_InrI:
  assumes "fs p = Some (Container wb)" and "supported_format p"
    and "sheet_index (sheets wb) s = Some i"
    and "make_font opts = Inr fnt" and "make_fill opts = Inr fl"
    and "ws_getitem (sheets wb ! i) r = Inr sel"
    and "format_selection (touch_all (sheets wb ! i) (selected sel)) sel
           (style_cell fnt fl (opt_number_format opts)) = Inr ws'"
  shows "\<exists>d. format_body fs p s r opts = Inr (save fs p (put_sheet wb i ws'), d)"
  using assms by (simp add: format_body_def load_workbook_def named_sheet_def)

lemma format_body_snd:
  assumes "format_body fs p s r opts = Inr res" and "format_body fs' p s r opts = Inr res'"
  shows "snd res = snd res'"
proof -
  have "snd x = [(''success'', PBool True), (''file_path'', PStr p), (''sheet_name'', PStr s),
                 (''range'', PStr r), (''format_options'', PDict (options_dict opts)),
                 (''message'', PStr (''Formatting applied to range '' @ r @ '' successfully''))]"
    if "format_body g p s r opts = Inr x" for g x
    using that unfolding format_body_def Let_def
    by (auto elim!: bind_raisesE split: if_splits)
  from this [OF assms(1)] this [OF assms(2)] show ?thesis by simp
qed

lemma format_selection_charts:
  assumes "format_selection (touch_all ws (selected sel)) sel f = Inr ws'"
  shows "charts ws' = charts ws"
  using assms
  by (auto simp: format_selection_def split: selection.splits if_splits)

lemma format_body_again:
  assumes body: "format_body fs p s r opts = Inr res"
    and ob: "\<And>ws. stored_sheet fs p s = Some ws \<Longrightarrow> one_based ws"
  shows "format_body (fst res) p s r opts = Inr res"
proof -
  let ?W = "\<lambda>ws. ws\<lparr>cells := written_cells (cells ws)\<rparr>"
  from body obtain wb i fnt fl sel ws' where
    f: "fs p = Some (Container wb)" and sup: "supported_format p"
    and si: "sheet_index (sheets wb) s = Some i" and i: "i < length (sheets wb)"
    and mf: "make_font opts = Inr fnt" and ml: "make_fill opts = Inr fl"
    and g: "ws_getitem (sheets wb ! i) r = Inr sel"
    and fsel: "format_selection (touch_all (sheets wb ! i) (selected sel)) sel
           (style_cell fnt fl (opt_number_format opts)) = Inr ws'"
    and fst_res: "fst res = save fs p (put_sheet wb i ws')"
    by (rule format_body_InrE)
  define ws where "ws = sheets wb ! i"
  define st where "st = style_cell fnt fl (opt_number_format opts)"
  define ws1 where "ws1 = ?W ws'"
  define wb1 where "wb1 = written (put_sheet wb i ws')"
  have idem: "st (st c) = st c" for c
    unfolding st_def by (rule style_cell_idem)
  have strip: "st (c\<lparr>cached := None\<rparr>) = (st c)\<lparr>cached := None\<rparr>" for c
    unfolding st_def by (rule style_cell_cached)
  have "stored_sheet fs p s = Some ws"
    by (simp add: stored_sheet_def f si ws_def)
  then have one: "one_based ws" by (rule ob)
  obtain rows where sel: "sel = Grid rows"
  proof (cases sel)
    case (OneCell k)
    with fsel show ?thesis by (simp add: format_selection_def)
  next
    case (Flat ks)
    with g one have "ks \<noteq> []"
      unfolding ws_def by (intro ws_getitem_Flat_nonempty [of "sheets wb ! i" r]) simp_all
    with fsel Flat show ?thesis by (simp add: format_selection_def)
  next
    case (Grid rows)
    then show ?thesis by (rule that)
  qed
  have c1: "cell_at ws' k = (if k \<in> set (concat rows) then st (cell_at ws k) else cell_at ws k)" for k
    using format_selection_cell_at(1) [OF fsel [folded st_def], of k] idem
    by (simp add: sel selected_def ws_def)
  have t1: "title ws' = title ws"
    using format_selection_cell_at(2) [OF fsel [folded st_def]] idem
    by (simp add: ws_def)
  have sheets1: "sheets wb1 = map ?W ((sheets wb)[i := ws'])"
    by (simp add: wb1_def written_def put_sheet_def)
  have fs1: "fst res = fs(p := Some (Container wb1))"
    by (simp add: fst_res save_def wb1_def)
  have at_i: "sheets wb1 ! i = ws1"
    using i by (simp add: sheets1 ws1_def)
  have si1: "sheet_index (sheets wb1) s = Some i"
    using si i t1 by (simp add: sheets1 sheet_index_map sheet_index_update ws_def)
  have dom: "fmdom' (cells ws1) \<subseteq> fmdom' (cells ws) \<union> set (concat rows)"
  proof
    fix k
    assume "k \<in> fmdom' (cells ws1)"
    then have "\<not> is_blank (cell_at ws' k)"
      unfolding ws1_def by (simp add: written_dom)
    then have "k \<in> set (concat rows) \<or> \<not> is_blank (cell_at ws k)"
      by (auto simp: c1 split: if_splits)
    then show "k \<in> fmdom' (cells ws) \<union> set (concat rows)"
      using not_blank_dom [of ws k] by blast
  qed
  from ws_getitem_again [OF g [folded ws_def, unfolded sel] one dom]
  obtain rows1 where g1: "ws_getitem ws1 r = Inr (Grid rows1)"
    and sub: "set (concat rows1) \<subseteq> set (concat rows)"
    by blast
  define ws2 where
    "ws2 = fold (\<lambda>row w. fold (\<lambda>k w'. modify w' k st) row w) rows1 (touch_all ws1 (concat rows1))"
  have fsel1: "format_selection (touch_all ws1 (selected (Grid rows1))) (Grid rows1) st = Inr ws2"
    by (simp add: format_selection_def selected_def ws2_def)
  have c2: "cell_at ws2 k = (if k \<in> set (concat rows1) then st (cell_at ws1 k) else cell_at ws1 k)" for k
    using format_selection_cell_at(1) [OF fsel1, of k] idem
    by (simp add: selected_def)
  have cells2: "written_cells (cells ws2) = written_cells (cells ws')"
    using idem strip c1 c2 [unfolded ws1_def] sub by (rule restyle_written)
  have "?W ws2 = ws1"
  proof (rule worksheet.equality)
    show "title (?W ws2) = title ws1"
      using format_selection_cell_at(2) [OF fsel1] idem by simp
    show "cells (?W ws2) = cells ws1"
      by (simp add: cells2 ws1_def)
    show "charts (?W ws2) = charts ws1"
      using format_selection_charts [OF fsel1] by simp
  qed simp
  moreover have "map ?W (sheets wb1) = sheets wb1"
    by (simp add: sheets1 written_cells_idem)
  ultimately have "map ?W ((sheets wb1)[i := ws2]) = sheets wb1"
    using at_i by (simp add: map_update del: list_update_id) (metis list_update_id)
  then have "written (put_sheet wb1 i ws2) = wb1"
    by (simp add: written_def put_sheet_def)
  then have same: "save (fst res) p (put_sheet wb1 i ws2) = fst res"
    by (simp add: save_def fs1)
  have "\<exists>d. format_body (fst res) p s r opts = Inr (save (fst res) p (put_sheet wb1 i ws2), d)"
  proof (rule format_body_InrI)
    show "fst res p = Some (Container wb1)" by (simp add: fs1)
    show "supported_format p" by (rule sup)
    show "sheet_index (sheets wb1) s = Some i" by (rule si1)
    show "make_font opts = Inr fnt" by (rule mf)
    show "make_fill opts = Inr fl" by (rule ml)
    show "ws_getitem (sheets wb1 ! i) r = Inr (Grid rows1)" by (simp add: at_i g1)
    show "format_selection (touch_all (sheets wb1 ! i) (selected (Grid rows1))) (Grid rows1)
            (style_cell fnt fl (opt_number_format opts)) = Inr ws2"
      using fsel1 by (simp add: at_i st_def)
  qed
  then obtain d where again: "format_body (fst res) p s r opts = Inr (fst res, d)"
    unfolding same by blast
  from format_body_snd [OF body again] have "d = snd res" by simp
  with again show ?thesis by simp
qed

subsection \<open>Evaluation on the examples\<close>

lemmas getitem_eval =
  ws_getitem_def bind_raises_def truthy_index_def index_or_def iter_rows_def iter_cols_def
  cells_by_row_def cells_by_col_def force_def cell_error_def List.map_filter_def
  max_row_def max_column_def upt_conv_Cons

lemmas read_eval =
  read_excel_file_def read_body_def load_workbook_def given_def str_or_def named_sheet_def
  select_sheet_def map_cells_def with_cells_def fmmap_fmupd data_only_cell_def read_range_def cell_value_def cell_at_def
  value_of_def active_def

lemmas save_eval =
  save_def written_def is_blank_def has_style_def put_sheet_def modify_def touch_def
  touch_all_def selected_def fmlookup_written_cells

lemmas format_eval =
  format_cells_def format_body_def make_font_def make_fill_def style_cell_def format_selection_def

lemmas example_defs =
  example_fs_def example_sheet_def stored_cell_def stored_sheet_def num_cell_def empty_cell_def Let_def

lemma supported_book: "supported_format ''book.xlsx''"
  by code_simp

lemma rb_A1: "range_boundaries ''A1'' = Inr (Some 1, Some 1, Some 1, Some 1)"
  by code_simp

lemma rb_A1A1: "range_boundaries ''A1:A1'' = Inr (Some 1, Some 1, Some 1, Some 1)"
  by code_simp





lemma rb_AB: "range_boundaries ''A:B'' = Inr (Some 1, None, Some 2, None)"
  by code_simp


lemma write_over_active:
  "fst (write_excel_file numbered two_rows_fs ''book.xlsx'' [[PInt 9]] None None) =
     two_rows_fs(''book.xlsx'' := Some (Container
       \<lparr>sheets = [\<lparr>title = ''Sheet'',
                   cells = fmupd (1, 1) (num_cell 9) (fmupd (2, 1) (num_cell 2) fmempty),
                   charts = []\<rparr>],
        active_index = 0\<rparr>))"
proof -
  have stored: "two_rows_fs ''book.xlsx'' \<noteq> None"
    by (simp add: two_rows_fs_def)
  have loaded: "load_workbook two_rows_fs ''book.xlsx'' False =
      Inr \<lparr>sheets = [\<lparr>title = ''Sheet'',
                       cells = fmupd (1, 1) (num_cell 1) (fmupd (2, 1) (num_cell 2) fmempty),
                       charts = []\<rparr>],
           active_index = 0\<rparr>"
    by (simp add: load_workbook_def two_rows_fs_def supported_book)
  have "written_cells (fmupd (Suc 0, Suc 0) (num_cell 9) (fmupd (2, Suc 0) (num_cell 2) fmempty))
      = fmupd (Suc 0, Suc 0) (num_cell 9) (fmupd (2, Suc 0) (num_cell 2) fmempty)"
    by (rule written_cells_id) (auto simp: is_blank_def num_cell_def empty_cell_def split: if_splits)
  then show ?thesis
    by (simp add: write_excel_file_def write_body_def stored loaded given_def active_def
         bind_raises_def save_def written_def put_sheet_def Let_def ws_cell_def bind_value_def
         modify_def cell_at_def num_cell_def)
qed

lemma format_bold_eval:
  "succeeded (snd (format_cells example_fs ''book.xlsx'' ''S'' ''A1:A1'' bold_only))"
  "stored_cell (fst (format_cells example_fs ''book.xlsx'' ''S'' ''A1:A1'' bold_only)) ''book.xlsx'' ''S'' (1, 1)
     = Some ((num_cell 1)\<lparr>font := Some \<lparr>bold = Some True, italic = None, sz = None, color = None\<rparr>\<rparr>)"
  by (simp_all add: format_eval read_eval getitem_eval save_eval supported_book rb_A1A1 bold_only_def
       example_defs succeeded_def)



section \<open>The claims\<close>

text \<open>
  C10. The claim: a read with a range always returns a two-dimensional, row-major list,
  a single-cell range giving \<^verbatim>\<open>[[value]]\<close>. The source aims at this in its
  \<^verbatim>\<open># Single row or cell\<close> branch, \<^verbatim>\<open>data = [[cell.value for cell in cells]]\<close>,
  but \<^verbatim>\<open>worksheet["A1"]\<close> is one cell object and a cell cannot be iterated: the
  comprehension raises and the read of the single cell A1 (which holds 1) reports a
  failure with no data instead of \<^verbatim>\<open>[[1]]\<close>.
\<close>

theorem read_single_cell_reference_fails:
  "read_excel_file example_fs ''book.xlsx'' (Some ''S'') (Some ''A1'') =
     [(''success'', PBool False), (''error'', PStr cell_not_iterable), (''data'', PList [])]"
  by (simp add: read_eval getitem_eval supported_book rb_A1 example_defs)

text \<open>
  C2. The claim: a write to an existing worksheet, named or active, clears the rows the
  worksheet had, so that the next read returns the new rows only. The source clears
  (\<^verbatim>\<open>delete_rows(1, max_row)\<close> under \<^verbatim>\<open># Clear existing data\<close>) in the branch for
  a named worksheet only. Written without a sheet name over a workbook whose active
  worksheet holds 1 and 2 in A1 and A2, the single row \<^verbatim>\<open>[[9]]\<close> replaces A1 and
  leaves A2: the next read returns two rows.
\<close>

theorem write_active_sheet_keeps_old_rows:
  "map_of (read_excel_file
             (fst (write_excel_file numbered two_rows_fs ''book.xlsx'' [[PInt 9]] None None))
             ''book.xlsx'' None None) ''data''
     = Some (PList [PList [PInt 9], PList [PInt 2]])"
  by (simp add: write_over_active read_eval getitem_eval supported_book num_cell_def
       empty_cell_def get_column_letter_def)

text \<open>
  C4. Every operation returns a dictionary of the uniform shape: \<^verbatim>\<open>success\<close> is true,
  or \<^verbatim>\<open>success\<close> is false and \<^verbatim>\<open>error\<close> holds the message of the exception.
  No exception leaves an operation: each body runs inside \<^verbatim>\<open>try\<close> and every raise of
  the body is turned into the failure dictionary (\<^verbatim>\<open>read_excel_file\<close> adds an empty
  \<^verbatim>\<open>data\<close> list to it). The statement covers the eight operations on workbooks, for
  any behaviour of the sheet numbering and of the chart library.
\<close>

theorem every_operation_returns_uniform_result:
  "uniform (read_excel_file fs p s r)
   \<and> uniform (snd (write_excel_file numbered fs p d s h))
   \<and> uniform (get_worksheet_info fs p)
   \<and> uniform (snd (add_worksheet numbered fs p n))
   \<and> uniform (snd (update_cell fs p n c v))
   \<and> uniform (snd (apply_formula fs p n c f))
   \<and> uniform (snd (format_cells fs p n c opts))
   \<and> uniform (snd (create_chart reference fs p n dr k t pos))"
proof -
  have "uniform (read_excel_file fs p s r)"
  proof (cases "read_body fs p s r")
    case (Inl e)
    then show ?thesis by (simp add: read_excel_file_def uniform_def)
  next
    case (Inr d)
    then show ?thesis by (simp add: read_excel_file_def uniform_succeeded read_body_succeeded)
  qed
  moreover have "uniform (snd (write_excel_file numbered fs p d s h))"
    by (cases "write_body numbered fs p d s h")
      (simp_all add: write_excel_file_def uniform_failure uniform_succeeded write_body_succeeded)
  moreover have "uniform (get_worksheet_info fs p)"
    by (cases "info_body fs p")
      (simp_all add: get_worksheet_info_def uniform_failure uniform_succeeded info_body_succeeded)
  moreover have "uniform (snd (add_worksheet numbered fs p n))"
    by (cases "add_body numbered fs p n")
      (simp_all add: add_worksheet_def uniform_failure uniform_succeeded add_body_succeeded)
  moreover have "uniform (snd (update_cell fs p n c v))"
    by (cases "update_body fs p n c v")
      (simp_all add: update_cell_def uniform_failure uniform_succeeded update_body_succeeded)
  moreover have "uniform (snd (apply_formula fs p n c f))"
    by (cases "formula_body fs p n c f")
      (simp_all add: apply_formula_def uniform_failure uniform_succeeded formula_body_succeeded)
  moreover have "uniform (snd (format_cells fs p n c opts))"
    by (cases "format_body fs p n c opts")
      (simp_all add: format_cells_def uniform_failure uniform_succeeded format_body_succeeded)
  moreover have "uniform (snd (create_chart reference fs p n dr k t pos))"
    by (cases "chart_body reference fs p n dr k t pos")
      (simp_all add: create_chart_def uniform_failure uniform_succeeded chart_body_succeeded)
  ultimately show ?thesis by simp
qed
















text \<open>
  C9. Formatting the same range of the same worksheet with the same options a second time
  changes nothing: the second call returns the result of the first and leaves every
  container as the first call left it, so every cell has the same font, fill and number
  format (and value) after two calls as after one. When the first call fails, nothing
  was stored and the second call fails in the same way. The worksheet on disk is taken to
  be numbered from 1 (no cell at row 0 or column 0), as every worksheet the library
  builds is.
\<close>

theorem format_cells_twice:
  assumes "\<And>ws. stored_sheet fs p s = Some ws \<Longrightarrow> one_based ws"
  shows "format_cells (fst (format_cells fs p s r opts)) p s r opts = format_cells fs p s r opts
       \<and> (\<forall>k. stored_cell (fst (format_cells (fst (format_cells fs p s r opts)) p s r opts)) p s k =
                stored_cell (fst (format_cells fs p s r opts)) p s k)"
proof (cases "format_body fs p s r opts")
  case (Inl e)
  then show ?thesis by (simp add: format_cells_def)
next
  case (Inr res)
  from format_body_again [OF Inr assms] show ?thesis
    by (simp add: format_cells_def Inr)
qed

theorem format_cells_twice_witness:
  "stored_sheet example_fs ''book.xlsx'' ''S'' = Some example_sheet \<and> one_based example_sheet
   \<and> succeeded (snd (format_cells example_fs ''book.xlsx'' ''S'' ''A1:A1'' bold_only))
   \<and> format_cells (fst (format_cells example_fs ''book.xlsx'' ''S'' ''A1:A1'' bold_only))
         ''book.xlsx'' ''S'' ''A1:A1'' bold_only
       = format_cells example_fs ''book.xlsx'' ''S'' ''A1:A1'' bold_only
   \<and> stored_cell (fst (format_cells (fst (format_cells example_fs ''book.xlsx'' ''S'' ''A1:A1'' bold_only))
                          ''book.xlsx'' ''S'' ''A1:A1'' bold_only)) ''book.xlsx'' ''S'' (1, 1)
       = Some ((num_cell 1)\<lparr>font := Some \<lparr>bold = Some True, italic = None, sz = None, color = None\<rparr>\<rparr>)"
proof -
  have s: "stored_sheet example_fs ''book.xlsx'' ''S'' = Some example_sheet"
    by (simp add: example_fs_def stored_sheet_def example_sheet_def)
  have o: "one_based example_sheet"
    by (simp add: one_based_def example_sheet_def)
  have t: "format_cells (fst (format_cells example_fs ''book.xlsx'' ''S'' ''A1:A1'' bold_only))
               ''book.xlsx'' ''S'' ''A1:A1'' bold_only
             = format_cells example_fs ''book.xlsx'' ''S'' ''A1:A1'' bold_only
         \<and> (\<forall>k. stored_cell (fst (format_cells (fst (format_cells example_fs ''book.xlsx'' ''S'' ''A1:A1'' bold_only))
                                  ''book.xlsx'' ''S'' ''A1:A1'' bold_only)) ''book.xlsx'' ''S'' k
                 = stored_cell (fst (format_cells example_fs ''book.xlsx'' ''S'' ''A1:A1'' bold_only))
                     ''book.xlsx'' ''S'' k)"
  proof (rule format_cells_twice)
    fix ws
    assume "stored_sheet example_fs ''book.xlsx'' ''S'' = Some ws"
    with s o show "one_based ws" by simp
  qed
  from t have c: "stored_cell (fst (format_cells (fst (format_cells example_fs ''book.xlsx'' ''S'' ''A1:A1'' bold_only))
                          ''book.xlsx'' ''S'' ''A1:A1'' bold_only)) ''book.xlsx'' ''S'' (1, 1)
       = Some ((num_cell 1)\<lparr>font := Some \<lparr>bold = Some True, italic = None, sz = None, color = None\<rparr>\<rparr>)"
    unfolding format_bold_eval(2) [symmetric] by blast
  from t have e: "format_cells (fst (format_cells example_fs ''book.xlsx'' ''S'' ''A1:A1'' bold_only))
               ''book.xlsx'' ''S'' ''A1:A1'' bold_only
             = format_cells example_fs ''book.xlsx'' ''S'' ''A1:A1'' bold_only"
    by (rule conjunct1)
  show ?thesis
    by (intro conjI) (rule s o format_bold_eval(1) e c)+
qed

end
